theory Spec2Isabelle
  imports Complex_Main "HOL-Library.Sublist"
begin

section \<open>Python values and exceptions\<close>

text \<open>
  The development embeds \<^verbatim>\<open>src/archives/multimodel_ollama.py\<close>. Every call that leaves
  the file (the HTTP client, the subprocess runner, the LLM constructor and the crew's
  kickoff) is a field of an environment record, so that each theorem holds for every
  behaviour of the outside world. A function that may raise returns \<open>exn + 'a\<close>, with
  \<open>Inl\<close> for the raised exception. Console output is not modelled.
\<close>

text \<open>
  The exception classes the file's \<^verbatim>\<open>except\<close> clauses tell apart. \<open>RequestException\<close> and
  \<open>TimeoutExpired\<close> stand for the class and its subclasses; \<open>KeyboardInterrupt\<close> and
  \<open>SystemExit\<close> derive from \<^verbatim>\<open>BaseException\<close> only, all the others from \<^verbatim>\<open>Exception\<close>.
\<close>

datatype exn_class =
    RequestException
  | TimeoutExpired
  | KeyError
  | TypeError
  | AttributeError
  | OtherException
  | KeyboardInterrupt
  | SystemExit

text \<open>An exception is its class and the text \<^verbatim>\<open>str(e)\<close> gives.\<close>

datatype exn = Exn (exn_cls: exn_class) (exn_str: string)

fun isinstance_Exception :: "exn \<Rightarrow> bool" where
  "isinstance_Exception (Exn KeyboardInterrupt m) = False"
| "isinstance_Exception (Exn SystemExit m) = False"
| "isinstance_Exception (Exn c m) = True"

fun isinstance_RequestException :: "exn \<Rightarrow> bool" where
  "isinstance_RequestException (Exn RequestException m) = True"
| "isinstance_RequestException (Exn c m) = False"

fun isinstance_TimeoutExpired :: "exn \<Rightarrow> bool" where
  "isinstance_TimeoutExpired (Exn TimeoutExpired m) = True"
| "isinstance_TimeoutExpired (Exn c m) = False"

text \<open>
  What \<^verbatim>\<open>response.json()\<close> can return. A \<open>JDict\<close> lists the items of the dictionary in
  order, each key once.
\<close>

datatype json =
    JNone
  | JBool bool
  | JNum int
  | JStr string
  | JList "json list"
  | JDict "(string \<times> json) list"

text \<open>
  The interpreter's own errors carry no message here: none of the functions below
  reads it.
\<close>

definition raise :: "exn_class \<Rightarrow> exn + 'a" where
  "raise c = Inl (Exn c [])"

text \<open>\<^verbatim>\<open>d.get(key, default)\<close>: only a dictionary has the method.\<close>

fun py_get :: "json \<Rightarrow> string \<Rightarrow> json \<Rightarrow> exn + json" where
  "py_get (JDict kvs) k d = (case map_of kvs k of None \<Rightarrow> Inr d | Some v \<Rightarrow> Inr v)"
| "py_get v k d = raise AttributeError"

text \<open>
  \<^verbatim>\<open>for x in v\<close>: a list yields its elements, a dictionary its keys, a string its
  characters; the other values are not iterable.
\<close>

fun py_iter :: "json \<Rightarrow> exn + json list" where
  "py_iter (JList xs) = Inr xs"
| "py_iter (JDict kvs) = Inr (map (\<lambda>kv. JStr (fst kv)) kvs)"
| "py_iter (JStr s) = Inr (map (\<lambda>c. JStr [c]) s)"
| "py_iter v = raise TypeError"

text \<open>\<^verbatim>\<open>v[key]\<close> with a string key: defined on dictionaries only.\<close>

fun py_getitem :: "json \<Rightarrow> string \<Rightarrow> exn + json" where
  "py_getitem (JDict kvs) k = (case map_of kvs k of None \<Rightarrow> raise KeyError | Some v \<Rightarrow> Inr v)"
| "py_getitem v k = raise TypeError"

text \<open>\<^verbatim>\<open>sub in s\<close> on two strings: \<open>sub\<close> occurs in \<open>s\<close> as a contiguous block.\<close>

fun str_contains :: "string \<Rightarrow> string \<Rightarrow> bool" where
  "str_contains sub [] = (sub = [])"
| "str_contains sub (c # cs) = (prefix sub (c # cs) \<or> str_contains sub cs)"

text \<open>
  \<^verbatim>\<open>name in v\<close> for a string \<open>name\<close>: substring test on a string, membership on a
  list, key membership on a dictionary, \<^verbatim>\<open>TypeError\<close> on the rest.
\<close>

fun py_in :: "string \<Rightarrow> json \<Rightarrow> exn + bool" where
  "py_in name (JStr s) = Inr (str_contains name s)"
| "py_in name (JList xs) = Inr (List.member xs (JStr name))"
| "py_in name (JDict kvs) = Inr (List.member (map fst kvs) name)"
| "py_in name v = raise TypeError"

section \<open>The data of the program\<close>

datatype ModelStrength = ANALYTICAL | EXECUTION | REASONING

record ModelConfig =
  name :: string
  ollama_model :: string
  strength :: ModelStrength
  role :: string
  description :: string
  temperature :: real
  context_window :: nat

record OllamaManager =
  base_url :: string
  api_url :: string

text \<open>The arguments of \<^verbatim>\<open>requests.get\<close> and the parts of its response the file reads.\<close>

record request =
  url :: string
  timeout :: "nat option"

record response =
  status_code :: nat
  json :: "exn + json"

text \<open>The arguments of \<^verbatim>\<open>subprocess.run\<close> and the completed process.\<close>

record run_args =
  args :: "string list"
  capture_output :: bool
  text_mode :: bool
  run_timeout :: nat

record CompletedProcess =
  returncode :: int
  stdout :: string
  stderr :: string

text \<open>An \<^verbatim>\<open>LLM\<close> handle is the arguments it was constructed with.\<close>

record LLM =
  model :: string
  llm_base_url :: string
  llm_temperature :: real
  max_tokens :: nat
  top_p :: real
  frequency_penalty :: real
  presence_penalty :: real

datatype tool = BraveSearchTool | ScrapeWebsiteTool

record Agent =
  agent_role :: string
  goal :: string
  backstory :: string
  llm :: LLM
  tools :: "tool list"
  agent_verbose :: bool
  allow_delegation :: bool

datatype Task =
  Task (task_description: string) (expected_output: string) (agent: Agent) (task_context: "Task list")

datatype Process = sequential | hierarchical

record embedder_config =
  provider :: string
  provider_config :: "(string \<times> string) list"

record Crew =
  agents :: "Agent list"
  tasks :: "Task list"
  process :: Process
  verbose :: bool
  memory :: bool
  max_rpm :: nat
  embedder :: embedder_config

section \<open>The outside world\<close>

text \<open>
  The trace lists the calls that leave the file, in order: the requests, the
  subprocesses, the constructor calls \<^verbatim>\<open>LLM(...)\<close>, \<^verbatim>\<open>Agent(...)\<close>, \<^verbatim>\<open>Task(...)\<close> and
  \<^verbatim>\<open>Crew(...)\<close>, each with the object it constructs, and the kickoff. It also lists each
  entry into \<^verbatim>\<open>pull_model_if_needed\<close> with its argument. An object of the framework is
  the record of its constructor's arguments, so two objects built from the same
  arguments are equal as values; that an object is constructed in a call, and not
  taken over from an earlier one, is read off the trace.
\<close>

datatype event =
    Requests_get request
  | Subprocess_run run_args
  | LLM_init LLM
  | Agent_init Agent
  | Task_init Task
  | Crew_init Crew
  | Crew_kickoff Crew "(string \<times> string) list"
  | Pull_model_if_needed string

text \<open>
  The environment: what each external call returns or raises in a world \<open>'w\<close>, and the
  world it leaves.
\<close>

record 'w env =
  env_requests_get :: "request \<Rightarrow> 'w \<Rightarrow> (exn + response) \<times> 'w"
  env_subprocess_run :: "run_args \<Rightarrow> 'w \<Rightarrow> (exn + CompletedProcess) \<times> 'w"
  env_LLM :: "LLM \<Rightarrow> 'w \<Rightarrow> (exn + LLM) \<times> 'w"
  env_kickoff :: "Crew \<Rightarrow> (string \<times> string) list \<Rightarrow> 'w \<Rightarrow> (exn + string) \<times> 'w"

record 'w state =
  world :: 'w
  trace :: "event list"

text \<open>An external call: its outcome and the world it leaves, with the call added to the trace.\<close>

definition external ::
  "event \<Rightarrow> ('w \<Rightarrow> 'a \<times> 'w) \<Rightarrow> 'w state \<Rightarrow> 'a \<times> 'w state" where
  "external ev f st =
     (case f (world st) of (r, w') \<Rightarrow> (r, \<lparr>world = w', trace = trace st @ [ev]\<rparr>))"

definition requests_get :: "'w env \<Rightarrow> request \<Rightarrow> 'w state \<Rightarrow> (exn + response) \<times> 'w state" where
  "requests_get env req = external (Requests_get req) (env_requests_get env req)"

definition subprocess_run ::
  "'w env \<Rightarrow> run_args \<Rightarrow> 'w state \<Rightarrow> (exn + CompletedProcess) \<times> 'w state" where
  "subprocess_run env a = external (Subprocess_run a) (env_subprocess_run env a)"

definition new_LLM :: "'w env \<Rightarrow> LLM \<Rightarrow> 'w state \<Rightarrow> (exn + LLM) \<times> 'w state" where
  "new_LLM env l = external (LLM_init l) (env_LLM env l)"

definition kickoff ::
  "'w env \<Rightarrow> Crew \<Rightarrow> (string \<times> string) list \<Rightarrow> 'w state \<Rightarrow> (exn + string) \<times> 'w state" where
  "kickoff env c inputs = external (Crew_kickoff c inputs) (env_kickoff env c inputs)"

section \<open>OllamaManager\<close>

definition OllamaManager_init :: "string \<Rightarrow> OllamaManager" where
  "OllamaManager_init b = \<lparr>base_url = b, api_url = b @ ''/api''\<rparr>"

definition default_base_url :: string where
  "default_base_url = ''http://localhost:11434''"

text \<open>
  \<^verbatim>\<open>check_ollama_status\<close>: one GET of \<^verbatim>\<open>{base_url}/api/tags\<close> with a timeout of 5 seconds;
  a \<^verbatim>\<open>RequestException\<close> becomes \<open>False\<close>, any other exception propagates.
\<close>

definition check_ollama_status ::
  "'w env \<Rightarrow> OllamaManager \<Rightarrow> 'w state \<Rightarrow> (exn + bool) \<times> 'w state" where
  "check_ollama_status env self st =
     (case requests_get env \<lparr>url = base_url self @ ''/api/tags'', timeout = Some 5\<rparr> st of
        (Inr response, st') \<Rightarrow> (Inr (status_code response = 200), st')
      | (Inl e, st') \<Rightarrow>
          if isinstance_RequestException e then (Inr False, st') else (Inl e, st'))"

text \<open>The comprehension \<^verbatim>\<open>[model['name'] for model in ms]\<close>, stopping at the first error.\<close>

fun model_names :: "json list \<Rightarrow> exn + json list" where
  "model_names [] = Inr []"
| "model_names (m # ms) =
     (case py_getitem m ''name'' of
        Inl e \<Rightarrow> Inl e
      | Inr n \<Rightarrow> (case model_names ms of Inl e \<Rightarrow> Inl e | Inr ns \<Rightarrow> Inr (n # ns)))"

text \<open>
  The body of the \<^verbatim>\<open>try\<close> in \<^verbatim>\<open>list_available_models\<close>, after the request has returned.
\<close>

definition names_of_response :: "response \<Rightarrow> exn + json list" where
  "names_of_response r =
     (if status_code r = 200 then
        (case json r of
           Inl e \<Rightarrow> Inl e
         | Inr body \<Rightarrow>
             (case py_get body ''models'' (JList []) of
                Inl e \<Rightarrow> Inl e
              | Inr ms \<Rightarrow>
                  (case py_iter ms of Inl e \<Rightarrow> Inl e | Inr xs \<Rightarrow> model_names xs)))
      else Inr [])"

text \<open>
  \<^verbatim>\<open>list_available_models\<close>: one GET of \<^verbatim>\<open>{api_url}/tags\<close> with no timeout; a
  \<^verbatim>\<open>RequestException\<close> raised anywhere in the \<^verbatim>\<open>try\<close> becomes the empty list.
\<close>

definition list_available_models ::
  "'w env \<Rightarrow> OllamaManager \<Rightarrow> 'w state \<Rightarrow> (exn + json list) \<times> 'w state" where
  "list_available_models env self st =
     (case requests_get env \<lparr>url = api_url self @ ''/tags'', timeout = None\<rparr> st of
        (r, st') \<Rightarrow>
          (case (case r of Inl e \<Rightarrow> Inl e | Inr response \<Rightarrow> names_of_response response) of
             Inl e \<Rightarrow> if isinstance_RequestException e then (Inr [], st') else (Inl e, st')
           | Inr ns \<Rightarrow> (Inr ns, st')))"

text \<open>\<^verbatim>\<open>any(model_name in model for model in available_models)\<close>, left to right.\<close>

fun any_in :: "string \<Rightarrow> json list \<Rightarrow> exn + bool" where
  "any_in model_name [] = Inr False"
| "any_in model_name (m # ms) =
     (case py_in model_name m of
        Inl e \<Rightarrow> Inl e
      | Inr found \<Rightarrow> if found then Inr True else any_in model_name ms)"

definition check_model_availability ::
  "'w env \<Rightarrow> OllamaManager \<Rightarrow> string \<Rightarrow> 'w state \<Rightarrow> (exn + bool) \<times> 'w state" where
  "check_model_availability env self model_name st =
     (case list_available_models env self st of
        (Inl e, st') \<Rightarrow> (Inl e, st')
      | (Inr available_models, st') \<Rightarrow> (any_in model_name available_models, st'))"

definition pull_args :: "string \<Rightarrow> run_args" where
  "pull_args model_name =
     \<lparr>args = [''ollama'', ''pull'', model_name], capture_output = True, text_mode = True,
      run_timeout = 1800\<rparr>"

text \<open>
  The \<^verbatim>\<open>try\<close> of \<^verbatim>\<open>pull_model_if_needed\<close>: exit code 0 is success; a non-zero exit code, a
  \<^verbatim>\<open>TimeoutExpired\<close> and any other \<^verbatim>\<open>Exception\<close> are failure; what is not an \<^verbatim>\<open>Exception\<close>
  propagates.
\<close>

definition download :: "'w env \<Rightarrow> string \<Rightarrow> 'w state \<Rightarrow> (exn + bool) \<times> 'w state" where
  "download env model_name st =
     (case subprocess_run env (pull_args model_name) st of
        (Inr result, st') \<Rightarrow> (if returncode result = 0 then (Inr True, st') else (Inr False, st'))
      | (Inl e, st') \<Rightarrow>
          if isinstance_TimeoutExpired e then (Inr False, st')
          else if isinstance_Exception e then (Inr False, st')
          else (Inl e, st'))"

text \<open>The entry into a method, added to the trace.\<close>

definition enter :: "event \<Rightarrow> 'w state \<Rightarrow> 'w state" where
  "enter ev st = st\<lparr>trace := trace st @ [ev]\<rparr>"

definition pull_model_if_needed ::
  "'w env \<Rightarrow> OllamaManager \<Rightarrow> string \<Rightarrow> 'w state \<Rightarrow> (exn + bool) \<times> 'w state" where
  "pull_model_if_needed env self model_name st =
     (case check_model_availability env self model_name (enter (Pull_model_if_needed model_name) st) of
        (Inl e, st') \<Rightarrow> (Inl e, st')
      | (Inr available, st') \<Rightarrow>
          if available then (Inr True, st') else download env model_name st')"

section \<open>MultiModelCrew\<close>

text \<open>
  The instance. \<open>models_config\<close> keeps the insertion order of the dictionary, which the
  loops over \<^verbatim>\<open>values()\<close> and \<^verbatim>\<open>items()\<close> follow; \<open>llms\<close> is written by key.
\<close>

record MultiModelCrew =
  ollama_manager :: OllamaManager
  models_config :: "(string \<times> ModelConfig) list"
  llms :: "string \<rightharpoonup> LLM"
  self_agents :: "string \<rightharpoonup> Agent"
  knowledge_base :: "string \<rightharpoonup> json"
  search_tool :: tool
  scrape_tool :: tool

definition setup_model_configurations :: "(string \<times> ModelConfig) list" where
  "setup_model_configurations =
     [(''analyst'',
       \<lparr>name = ''Qwen Analyst'', ollama_model = ''qwen3:1.7b'', strength = ANALYTICAL,
        role = ''Problem Analyst'',
        description = ''analytical thinking, problem decomposition, creating a ToDo list'',
        temperature = 0.3, context_window = 32768\<rparr>),
      (''researcher'',
       \<lparr>name = ''DeepSeek Researcher'', ollama_model = ''deepseek-r1:8b'', strength = REASONING,
        role = ''Information Researcher'',
        description = ''Accessing the internet and local files to gather information.'',
        temperature = 0.6, context_window = 128000\<rparr>),
      (''synthesizer'',
       \<lparr>name = ''Gemma3 Synthesizer'', ollama_model = ''gemma3:1b'', strength = EXECUTION,
        role = ''Solution Synthesizer'',
        description = ''Synthesizes information into a final answer based on research.'',
        temperature = 0.6, context_window = 32768\<rparr>)]"

definition MultiModelCrew_init :: MultiModelCrew where
  "MultiModelCrew_init =
     \<lparr>ollama_manager = OllamaManager_init default_base_url,
      models_config = setup_model_configurations,
      llms = Map.empty, self_agents = Map.empty, knowledge_base = Map.empty,
      search_tool = BraveSearchTool, scrape_tool = ScrapeWebsiteTool\<rparr>"

text \<open>
  The loop of \<^verbatim>\<open>initialize_system\<close> over \<^verbatim>\<open>models_config.values()\<close>: every configuration
  is pulled, a failure only clears \<open>models_ready\<close>.
\<close>

fun download_required_models ::
  "'w env \<Rightarrow> OllamaManager \<Rightarrow> ModelConfig list \<Rightarrow> bool \<Rightarrow> 'w state \<Rightarrow> (exn + bool) \<times> 'w state"
where
  "download_required_models env mgr [] models_ready st = (Inr models_ready, st)"
| "download_required_models env mgr (config # rest) models_ready st =
     (case pull_model_if_needed env mgr (ollama_model config) st of
        (Inl e, st') \<Rightarrow> (Inl e, st')
      | (Inr ok, st') \<Rightarrow>
          download_required_models env mgr rest (if \<not> ok then False else models_ready) st')"

definition llm_args :: "ModelConfig \<Rightarrow> LLM" where
  "llm_args config =
     \<lparr>model = ''ollama/'' @ ollama_model config, llm_base_url = ''http://localhost:11434'',
      llm_temperature = temperature config, max_tokens = 4096, top_p = 0.9,
      frequency_penalty = 0.0, presence_penalty = 0.0\<rparr>"

text \<open>
  The loop of \<^verbatim>\<open>_setup_llm_connections\<close>: the handler re-raises whatever the constructor
  raised, and the entries written before it stay.
\<close>

fun setup_llm_loop ::
  "'w env \<Rightarrow> (string \<times> ModelConfig) list \<Rightarrow> MultiModelCrew \<Rightarrow> 'w state \<Rightarrow>
   (exn + unit) \<times> MultiModelCrew \<times> 'w state"
where
  "setup_llm_loop env [] self st = (Inr (), self, st)"
| "setup_llm_loop env ((key, config) # rest) self st =
     (case new_LLM env (llm_args config) st of
        (Inl e, st') \<Rightarrow> (Inl e, self, st')
      | (Inr l, st') \<Rightarrow> setup_llm_loop env rest (self\<lparr>llms := (llms self)(key \<mapsto> l)\<rparr>) st')"

definition setup_llm_connections ::
  "'w env \<Rightarrow> MultiModelCrew \<Rightarrow> 'w state \<Rightarrow> (exn + unit) \<times> MultiModelCrew \<times> 'w state" where
  "setup_llm_connections env self st = setup_llm_loop env (models_config self) self st"

definition initialize_system ::
  "'w env \<Rightarrow> MultiModelCrew \<Rightarrow> 'w state \<Rightarrow> (exn + bool) \<times> MultiModelCrew \<times> 'w state" where
  "initialize_system env self st =
     (case check_ollama_status env (ollama_manager self) st of
        (Inl e, st1) \<Rightarrow> (Inl e, self, st1)
      | (Inr running, st1) \<Rightarrow>
          if \<not> running then (Inr False, self, st1)
          else
            (case download_required_models env (ollama_manager self)
                    (map snd (models_config self)) True st1 of
               (Inl e, st2) \<Rightarrow> (Inl e, self, st2)
             | (Inr models_ready, st2) \<Rightarrow>
                 if \<not> models_ready then (Inr False, self, st2)
                 else
                   (case setup_llm_connections env self st2 of
                      (Inl e, self', st3) \<Rightarrow> (Inl e, self', st3)
                    | (Inr u, self', st3) \<Rightarrow> (Inr True, self', st3))))"

section \<open>The pipeline of \<^verbatim>\<open>solve_problem\<close>\<close>

text \<open>The texts of the agents and tasks, as the source has them.\<close>

definition analyst_role :: string where
  \<open>analyst_role =
     ''Problem Analyst and Strategist''\<close>

definition analyst_goal :: string where
  \<open>analyst_goal =
     ''First, analyze a problem to determine if it can be solved with internal '' @
     ''logical reasoning or if it requires internet research. Then, create a precise '' @
     ''plan that consist of either search or reasoning for the next agent to follow. '' @
     ''Do not search over the internet, your job is to decide if the next agent '' @
     ''needs to search the internet or not, along with a to-do list.''\<close>

definition analyst_backstory :: string where
  \<open>analyst_backstory =
     ''You are a master strategist. Your first step is always to determine the '' @
     ''nature of the problem: does it require new information, or can it be solved '' @
     ''with logic and existing knowledge? Based on this, you produce a clear, actionable '' @
     ''plan that explicitly states whether to search the web or to use reasoning. '' @
     ''You never execute the plan yourself; you only create it.''\<close>

definition researcher_role :: string where
  \<open>researcher_role =
     ''Conditional Information Processor''\<close>

definition researcher_goal :: string where
  \<open>researcher_goal =
     ''Execute a plan from the Problem Analyst. You will either perform internet '' @
     ''research or use your internal knowledge based *only* on the instructions '' @
     ''in the plan. IF YOU PERFORM A SEARCH AND SCRAPE A WEBSITE, YOU MUST SUMMARIZE '' @
     ''OR EXTRACT ONLY THE MOST RELEVANT INFORMATION FROM THE SCRAPED CONTENT THAT '' @
     ''DIRECTLY ANSWERS THE ORIGINAL PROBLEM OR PLAN QUERY. DO NOT PASS RAW, UNPROCESSED '' @
     ''LARGE TEXT BLOCKS TO THE NEXT AGENT. Your final output should be a concise, '' @
     ''relevant report.''\<close>

definition researcher_backstory :: string where
  \<open>researcher_backstory =
     ''You are a hyper-efficient, silent processor. You follow plans with precision. '' @
     ''If a plan requires reasoning, you provide a detailed report. If the plan '' @
     ''requires a search, you perform the search, scrape the most relevant URL, '' @
     ''AND THEN CRITICALLY, you process the scraped data by summarizing or extracting '' @
     ''only the key points relevant to the original query, significantly reducing '' @
     ''its size before passing it on. You understand that passing extremely large '' @
     ''raw text blocks will cause failures.''\<close>

definition synthesizer_role :: string where
  \<open>synthesizer_role =
     ''Solution Synthesizer''\<close>

definition synthesizer_goal :: string where
  \<open>synthesizer_goal =
     ''Methodically review the gathered information from the researcher and compile '' @
     ''a final, comprehensive answer.''\<close>

definition synthesizer_backstory :: string where
  \<open>synthesizer_backstory =
     ''You are a focused writer. You DO NOT perform research. You receive a research '' @
     ''report and your only job is to format it into a final, comprehensive answer '' @
     ''that directly addresses the original user's question.''\<close>

definition analysis_task_description_head :: string where
  \<open>analysis_task_description_head =
     ''Analyze the following problem: '' @
     [CHR 0x27]\<close>

definition analysis_task_description_tail :: string where
  \<open>analysis_task_description_tail =
     [CHR 0x27] @
     ''.\<newline>                    First, decide if this problem requires an internet '' @
     ''search to acquire new information or if it can be solved with logical reasoning '' @
     ''alone.\<newline>                    Based on your decision, generate a plan.\<newline>    '' @
     ''                If an internet search is required, begin your output with '' @
     ''the single word "SEARCH" on the first line, followed by a numbered list '' @
     ''of 2-4 specific search queries.\<newline>                    If no search is required, '' @
     ''begin your output with the single word "REASON" on the first line, followed '' @
     ''by a logical outline of steps to reason through the problem.''\<close>

definition analysis_task_expected_output :: string where
  \<open>analysis_task_expected_output =
     ''A plan that starts with either "SEARCH" or "REASON" on the first line.\<newline> '' @
     ''                   If the first line is "SEARCH", it is followed by a numbered '' @
     ''list of actionable search queries.\<newline>                    If the first line '' @
     ''is "REASON", it is followed by a conceptual outline for solving the problem '' @
     ''using logic.''\<close>

definition research_task_description :: string where
  \<open>research_task_description =
     ''Read the plan provided by the Problem Analyst.\<newline>                         '' @
     ''           - If the plan says "SEARCH", perform the search. Then, take the '' @
     ''most relevant URL from the search results and use the scrape tool to read '' @
     ''its content.\<newline>                                    ***CRITICAL STEP***: AFTER '' @
     ''SCRAPING THE CONTENT, YOU MUST PROCESS IT. Summarize or extract only the '' @
     ''most relevant information from the scraped webpage that directly addresses '' @
     ''the original problem or the specific search query from the plan. DO NOT '' @
     ''include the entire scraped text in your final output. The goal is to drastically '' @
     ''reduce the amount of text passed to the next agent.\<newline>                    '' @
     ''                - If the plan says "REASON", use your internal knowledge '' @
     ''to answer.\<newline>                                    Your final output should '' @
     ''be the processed, concise information you gathered, whether from the summarized '' @
     ''scraped content or internal knowledge.''\<close>

definition research_task_expected_output :: string where
  \<open>research_task_expected_output =
     ''A detailed but CONCISE report of the information gathered. If data was scraped, '' @
     ''this report MUST be a significantly summarized or extracted version of the '' @
     ''scraped content, focusing only on the most relevant parts. This processed '' @
     ''report will be passed to the synthesizer.''\<close>

definition synthesis_task_description :: string where
  \<open>synthesis_task_description =
     ''You have been given a report by the 'Conditional Information Processor'. '' @
     ''Your task is to compile this information into a final, well-structured answer.\<newline> '' @
     ''                   Do not add new information or deviate from the provided '' @
     ''report.\<newline>                    Base your entire final answer on the results '' @
     ''from the report.''\<close>

definition synthesis_task_expected_output :: string where
  \<open>synthesis_task_expected_output =
     ''A comprehensive, well-structured final answer that is the direct result '' @
     ''of the research or reasoning. The answer must directly address the original '' @
     ''problem.''\<close>

text \<open>
  The three agents. Where the source passes no \<^verbatim>\<open>tools\<close> the agent has none.
\<close>

definition analyst :: "LLM \<Rightarrow> Agent" where
  "analyst l =
     \<lparr>agent_role = analyst_role, goal = analyst_goal, backstory = analyst_backstory,
      llm = l, tools = [], agent_verbose = True, allow_delegation = False\<rparr>"

definition researcher :: "MultiModelCrew \<Rightarrow> LLM \<Rightarrow> Agent" where
  "researcher self l =
     \<lparr>agent_role = researcher_role, goal = researcher_goal, backstory = researcher_backstory,
      llm = l, tools = [search_tool self, scrape_tool self], agent_verbose = True,
      allow_delegation = False\<rparr>"

definition synthesizer :: "LLM \<Rightarrow> Agent" where
  "synthesizer l =
     \<lparr>agent_role = synthesizer_role, goal = synthesizer_goal,
      backstory = synthesizer_backstory, llm = l, tools = [], agent_verbose = True,
      allow_delegation = False\<rparr>"

text \<open>The only place the problem enters a task: the f-string of the analysis task.\<close>

definition analysis_task :: "string \<Rightarrow> Agent \<Rightarrow> Task" where
  "analysis_task problem a =
     Task (analysis_task_description_head @ problem @ analysis_task_description_tail)
       analysis_task_expected_output a []"

definition research_task :: "Agent \<Rightarrow> Task \<Rightarrow> Task" where
  "research_task r analysis =
     Task research_task_description research_task_expected_output r [analysis]"

definition synthesis_task :: "Agent \<Rightarrow> Task \<Rightarrow> Task" where
  "synthesis_task s research =
     Task synthesis_task_description synthesis_task_expected_output s [research]"

definition crew_embedder :: embedder_config where
  "crew_embedder =
     \<lparr>provider = ''ollama'',
      provider_config = [(''model'', ''nomic-embed-text''), (''base_url'', ''http://localhost:11434'')]\<rparr>"

definition crew :: "Agent list \<Rightarrow> Task list \<Rightarrow> Crew" where
  "crew ags ts =
     \<lparr>agents = ags, tasks = ts, process = sequential, verbose = True, memory = False,
      max_rpm = 30, embedder = crew_embedder\<rparr>"

text \<open>\<^verbatim>\<open>self.llms[key]\<close>: a missing key raises \<^verbatim>\<open>KeyError\<close>.\<close>

definition llms_getitem :: "MultiModelCrew \<Rightarrow> string \<Rightarrow> exn + LLM" where
  "llms_getitem self key = (case llms self key of None \<Rightarrow> raise KeyError | Some l \<Rightarrow> Inr l)"

text \<open>
  Everything \<^verbatim>\<open>solve_problem\<close> builds before the \<^verbatim>\<open>try\<close>: the three agents, in the
  order of the source, then the three tasks and the crew. Beside the crew, or the
  \<^verbatim>\<open>KeyError\<close> of a missing handle, stand the constructor calls made up to there. The
  constructors themselves do not raise here: their validation is not modelled.
\<close>

definition construct_crew :: "MultiModelCrew \<Rightarrow> string \<Rightarrow> (exn + Crew) \<times> event list" where
  "construct_crew self problem =
     (case llms_getitem self ''analyst'' of
        Inl e \<Rightarrow> (Inl e, [])
      | Inr l1 \<Rightarrow>
     (let a = analyst l1 in
      case llms_getitem self ''researcher'' of
        Inl e \<Rightarrow> (Inl e, [Agent_init a])
      | Inr l2 \<Rightarrow>
     (let r = researcher self l2 in
      case llms_getitem self ''synthesizer'' of
        Inl e \<Rightarrow> (Inl e, [Agent_init a, Agent_init r])
      | Inr l3 \<Rightarrow>
          (let s = synthesizer l3;
               t1 = analysis_task problem a;
               t2 = research_task r t1;
               t3 = synthesis_task s t2;
               c = crew [a, r, s] [t1, t2, t3]
           in (Inr c,
               [Agent_init a, Agent_init r, Agent_init s,
                Task_init t1, Task_init t2, Task_init t3, Crew_init c])))))"

text \<open>The crew that is built, or the exception raised on the way.\<close>

definition build_crew :: "MultiModelCrew \<Rightarrow> string \<Rightarrow> exn + Crew" where
  "build_crew self problem = fst (construct_crew self problem)"

text \<open>
  \<^verbatim>\<open>solve_problem\<close>: the \<^verbatim>\<open>try\<close> covers the kickoff only; an \<^verbatim>\<open>Exception\<close> raised there
  is returned as a string. The instance is passed through, as the other methods do.
\<close>

definition solve_problem ::
  "'w env \<Rightarrow> MultiModelCrew \<Rightarrow> string \<Rightarrow> 'w state \<Rightarrow>
   (exn + string) \<times> MultiModelCrew \<times> 'w state" where
  "solve_problem env self problem st =
     (case construct_crew self problem of
        (Inl e, constructed) \<Rightarrow> (Inl e, self, st\<lparr>trace := trace st @ constructed\<rparr>)
      | (Inr c, constructed) \<Rightarrow>
          (case kickoff env c [(''problem'', problem)] (st\<lparr>trace := trace st @ constructed\<rparr>) of
             (Inr result, st') \<Rightarrow> (Inr result, self, st')
           | (Inl e, st') \<Rightarrow>
               if isinstance_Exception e then (Inr (''Error: '' @ exn_str e), self, st')
               else (Inl e, self, st')))"

section \<open>The framework's sequential process\<close>

text \<open>
  The execution of a crew belongs to the multi-agent framework, an external library
  that is not under src/. The definitions of this section model it from
  section 4.4 of the specification: the stages run strictly in order, one at a time,
  and a stage consumes the textual output of the stages it declares as its context.
  The inputs of the kickoff fill the placeholders of the task texts through
  \<open>interpolate\<close>, a parameter; what an agent answers to an input is the parameter
  \<open>respond\<close>.
\<close>

type_synonym stage_input = "string \<times> string \<times> string list"

text \<open>
  Modelled from the spec: the context a stage consumes, which the framework assembles
  (not under src/). The outputs of the declared context tasks, in the order declared;
  \<open>None\<close> when one of them has not completed.
\<close>

fun context_outputs :: "(Task \<times> string) list \<Rightarrow> Task list \<Rightarrow> string list option" where
  "context_outputs completed [] = Some []"
| "context_outputs completed (c # cs) =
     (case map_of completed c of
        None \<Rightarrow> None
      | Some out \<Rightarrow>
          (case context_outputs completed cs of
             None \<Rightarrow> None
           | Some outs \<Rightarrow> Some (out # outs)))"

text \<open>
  Modelled from the spec: the framework's sequential execution of the task list (not
  under src/). Each stage begins when the one before it has completed; the result
  lists the stages in the order they ran, each with its input and its output.
\<close>

fun run_sequential ::
  "((string \<times> string) list \<Rightarrow> string \<Rightarrow> string) \<Rightarrow> (Agent \<Rightarrow> stage_input \<Rightarrow> string) \<Rightarrow>
   (string \<times> string) list \<Rightarrow> (Task \<times> string) list \<Rightarrow> Task list \<Rightarrow>
   (Task \<times> stage_input \<times> string) list option"
where
  "run_sequential interpolate respond inputs completed [] = Some []"
| "run_sequential interpolate respond inputs completed (t # ts) =
     (case context_outputs completed (task_context t) of
        None \<Rightarrow> None
      | Some outs \<Rightarrow>
          (let inp = (interpolate inputs (task_description t),
                      interpolate inputs (expected_output t), outs);
               out = respond (agent t) inp
           in (case run_sequential interpolate respond inputs ((t, out) # completed) ts of
                 None \<Rightarrow> None
               | Some later \<Rightarrow> Some ((t, inp, out) # later))))"

text \<open>
  Modelled from the spec: the framework's kickoff of a crew (not under src/), for the
  sequential process, the only one the specification describes.
\<close>

definition run_crew ::
  "((string \<times> string) list \<Rightarrow> string \<Rightarrow> string) \<Rightarrow> (Agent \<Rightarrow> stage_input \<Rightarrow> string) \<Rightarrow>
   Crew \<Rightarrow> (string \<times> string) list \<Rightarrow> (Task \<times> stage_input \<times> string) list option" where
  "run_crew interpolate respond c inputs =
     (if process c = sequential then run_sequential interpolate respond inputs [] (tasks c)
      else None)"

text \<open>
  Modelled from the spec: the framework's use of the kickoff inputs (not under src/).
  The specification names the inputs of a stage and the kickoff inputs are not among
  them; of the filling of placeholders only this is assumed, that a text without an
  opening brace has no placeholder and is left as it is.
\<close>

definition keeps_plain_text :: "((string \<times> string) list \<Rightarrow> string \<Rightarrow> string) \<Rightarrow> bool" where
  "keeps_plain_text interpolate =
     (\<forall>inputs s. CHR ''{'' \<notin> set s \<longrightarrow> interpolate inputs s = s)"

section \<open>Observations on traces and sample environments\<close>

text \<open>The downloads, the provisioned models, the constructed handles and the kickoffs of a trace.\<close>

primrec subprocess_runs :: "event list \<Rightarrow> run_args list" where
  "subprocess_runs [] = []"
| "subprocess_runs (e # es) =
     (case e of Subprocess_run a \<Rightarrow> a # subprocess_runs es | _ \<Rightarrow> subprocess_runs es)"

primrec pulls :: "event list \<Rightarrow> string list" where
  "pulls [] = []"
| "pulls (e # es) =
     (case e of Pull_model_if_needed m \<Rightarrow> m # pulls es | _ \<Rightarrow> pulls es)"

primrec llm_inits :: "event list \<Rightarrow> LLM list" where
  "llm_inits [] = []"
| "llm_inits (e # es) =
     (case e of LLM_init l \<Rightarrow> l # llm_inits es | _ \<Rightarrow> llm_inits es)"

primrec kickoffs :: "event list \<Rightarrow> (Crew \<times> (string \<times> string) list) list" where
  "kickoffs [] = []"
| "kickoffs (e # es) =
     (case e of Crew_kickoff c i \<Rightarrow> (c, i) # kickoffs es | _ \<Rightarrow> kickoffs es)"

text \<open>The two requests the manager issues.\<close>

definition status_probe :: "OllamaManager \<Rightarrow> request" where
  "status_probe self = \<lparr>url = base_url self @ ''/api/tags'', timeout = Some 5\<rparr>"

definition tags_request :: "OllamaManager \<Rightarrow> request" where
  "tags_request self = \<lparr>url = api_url self @ ''/tags'', timeout = None\<rparr>"

text \<open>
  What the successive calls of \<^verbatim>\<open>pull_model_if_needed\<close> in the loop of
  \<^verbatim>\<open>initialize_system\<close> return, up to the first that raises.
\<close>

fun pull_results ::
  "'w env \<Rightarrow> OllamaManager \<Rightarrow> ModelConfig list \<Rightarrow> 'w state \<Rightarrow> (exn + bool) list" where
  "pull_results env mgr [] st = []"
| "pull_results env mgr (c # cs) st =
     (case pull_model_if_needed env mgr (ollama_model c) st of
        (Inl e, st') \<Rightarrow> [Inl e]
      | (Inr ok, st') \<Rightarrow> Inr ok # pull_results env mgr cs st')"

text \<open>
  An environment whose calls always have the same outcome, a catalog response listing
  the given names, a process that exited with a given code, an instance after a
  successful initialisation, and an agent that always answers the same.
\<close>

definition fixed_env ::
  "(exn + response) \<Rightarrow> (exn + CompletedProcess) \<Rightarrow> (exn + string) \<Rightarrow> unit env" where
  "fixed_env got_out ran_out kicked_out =
     \<lparr>env_requests_get = (\<lambda>req w. (got_out, w)),
      env_subprocess_run = (\<lambda>a w. (ran_out, w)),
      env_LLM = (\<lambda>l w. (Inr l, w)),
      env_kickoff = (\<lambda>c inputs w. (kicked_out, w))\<rparr>"

definition tags_response :: "string list \<Rightarrow> response" where
  "tags_response names =
     \<lparr>status_code = 200,
      json = Inr (JDict [(''models'', JList (map (\<lambda>n. JDict [(''name'', JStr n)]) names))])\<rparr>"

definition exited :: "int \<Rightarrow> CompletedProcess" where
  "exited code = \<lparr>returncode = code, stdout = [], stderr = []\<rparr>"

definition start :: "unit state" where
  "start = \<lparr>world = (), trace = []\<rparr>"

definition initialized :: MultiModelCrew where
  "initialized =
     MultiModelCrew_init
       \<lparr>llms := map_of (map (\<lambda>kc. (fst kc, llm_args (snd kc))) setup_model_configurations)\<rparr>"

section \<open>Properties\<close>

lemma trace_start: "trace start = []"
  by (simp add: start_def)

lemma returncode_exited: "returncode (exited c) = c"
  by (simp add: exited_def)

lemma subprocess_runs_append: "subprocess_runs (xs @ ys) = subprocess_runs xs @ subprocess_runs ys"
  by (induction xs) (auto split: event.splits)

lemma external_eq:
  "external ev f st = (fst (f (world st)), \<lparr>world = snd (f (world st)), trace = trace st @ [ev]\<rparr>)"
  by (simp add: external_def split: prod.split)

lemma check_ollama_status_state:
  "snd (check_ollama_status env self st) =
     \<lparr>world = snd (env_requests_get env (status_probe self) (world st)),
      trace = trace st @ [Requests_get (status_probe self)]\<rparr>"
  by (simp add: check_ollama_status_def requests_get_def external_eq status_probe_def
      split: sum.split)

lemma check_ollama_status_result:
  "fst (check_ollama_status env self st) =
     (case fst (env_requests_get env (status_probe self) (world st)) of
        Inr response \<Rightarrow> Inr (status_code response = 200)
      | Inl e \<Rightarrow> if isinstance_RequestException e then Inr False else Inl e)"
  by (simp add: check_ollama_status_def requests_get_def external_eq status_probe_def
      split: sum.split)

text \<open>
  Claim C8. \<^verbatim>\<open>check_ollama_status\<close> issues the GET of \<^verbatim>\<open>{base_url}/api/tags\<close> once, with a
  timeout of 5 seconds, and does not retry. When the probe fails at the network level,
  that is when the request raises a \<^verbatim>\<open>RequestException\<close>, it returns \<open>False\<close> and the
  error does not propagate; when the probe returns a response it returns a truth
  value. What it lets through is an exception of the request that is not a
  \<^verbatim>\<open>RequestException\<close>, which is no network failure.
\<close>

theorem check_ollama_status_network_failure:
  "(\<forall>e. fst (env_requests_get env (status_probe self) (world st)) = Inl e \<and>
        isinstance_RequestException e \<longrightarrow>
      fst (check_ollama_status env self st) = Inr False) \<and>
   (\<forall>response. fst (env_requests_get env (status_probe self) (world st)) = Inr response \<longrightarrow>
      (\<exists>b. fst (check_ollama_status env self st) = Inr b)) \<and>
   trace (snd (check_ollama_status env self st)) =
     trace st @ [Requests_get (status_probe self)] \<and>
   url (status_probe self) = base_url self @ ''/api/tags'' \<and>
   timeout (status_probe self) = Some 5"
  by (simp add: check_ollama_status_result check_ollama_status_state status_probe_def)

theorem check_ollama_status_network_failure_witness:
  "fst (env_requests_get (fixed_env (Inl (Exn RequestException ''Connection refused''))
          (Inr (exited 0)) (Inr [])) (status_probe (OllamaManager_init default_base_url))
          (world start)) = Inl (Exn RequestException ''Connection refused'') \<and>
   isinstance_RequestException (Exn RequestException ''Connection refused'') \<and>
   fst (check_ollama_status (fixed_env (Inl (Exn RequestException ''Connection refused''))
          (Inr (exited 0)) (Inr [])) (OllamaManager_init default_base_url) start) = Inr False \<and>
   trace (snd (check_ollama_status (fixed_env (Inl (Exn RequestException ''Connection refused''))
          (Inr (exited 0)) (Inr [])) (OllamaManager_init default_base_url) start)) =
     [Requests_get \<lparr>url = ''http://localhost:11434/api/tags'', timeout = Some 5\<rparr>]"
proof -
  let ?E = "fixed_env (Inl (Exn RequestException ''Connection refused'')) (Inr (exited 0)) (Inr [])"
  let ?M = "OllamaManager_init default_base_url"
  have h: "fst (env_requests_get ?E (status_probe ?M) (world start)) =
             Inl (Exn RequestException ''Connection refused'')"
    by (simp add: fixed_env_def)
  have i: "isinstance_RequestException (Exn RequestException ''Connection refused'')"
    by simp
  have p: "status_probe ?M = \<lparr>url = ''http://localhost:11434/api/tags'', timeout = Some 5\<rparr>"
    by (simp add: status_probe_def OllamaManager_init_def default_base_url_def)
  from check_ollama_status_network_failure [of ?E ?M start] h i show ?thesis
    by (simp add: p trace_start)
qed

text \<open>
  Claim C9. \<^verbatim>\<open>check_ollama_status\<close> returns \<open>True\<close> exactly when the probe returns a response
  whose status code is 200; for a response with any other status code it returns
  \<open>False\<close>.
\<close>

theorem check_ollama_status_true_iff_200:
  "(fst (check_ollama_status env self st) = Inr True) =
     (\<exists>response. fst (env_requests_get env (status_probe self) (world st)) = Inr response \<and>
        status_code response = 200) \<and>
   (\<forall>response. fst (env_requests_get env (status_probe self) (world st)) = Inr response \<longrightarrow>
      fst (check_ollama_status env self st) = Inr (status_code response = 200))"
  by (auto simp add: check_ollama_status_result split: sum.splits)

theorem check_ollama_status_true_iff_200_witness:
  "fst (env_requests_get
          (fixed_env (Inr \<lparr>status_code = 500, json = Inr JNone\<rparr>) (Inr (exited 0)) (Inr []))
          (status_probe (OllamaManager_init default_base_url)) (world start)) =
     Inr \<lparr>status_code = 500, json = Inr JNone\<rparr> \<and>
   fst (check_ollama_status
          (fixed_env (Inr \<lparr>status_code = 500, json = Inr JNone\<rparr>) (Inr (exited 0)) (Inr []))
          (OllamaManager_init default_base_url) start) = Inr False"
proof -
  let ?E = "fixed_env (Inr \<lparr>status_code = 500, json = Inr JNone\<rparr>) (Inr (exited 0)) (Inr [])"
  let ?M = "OllamaManager_init default_base_url"
  have h: "fst (env_requests_get ?E (status_probe ?M) (world start)) =
             Inr \<lparr>status_code = 500, json = Inr JNone\<rparr>"
    by (simp add: fixed_env_def)
  from check_ollama_status_true_iff_200 [of ?E ?M start] h show ?thesis
    by simp
qed

lemma str_contains_iff: "str_contains sub s \<longleftrightarrow> (\<exists>p q. s = p @ sub @ q)"
proof (induction s)
  case Nil
  then show ?case by auto
next
  case (Cons c cs)
  show ?case
  proof
    assume "str_contains sub (c # cs)"
    then consider "prefix sub (c # cs)" | "str_contains sub cs" by auto
    then show "\<exists>p q. c # cs = p @ sub @ q"
    proof cases
      case 1
      then obtain q where "c # cs = sub @ q" by (auto simp: prefix_def)
      then have "c # cs = [] @ sub @ q" by simp
      then show ?thesis by blast
    next
      case 2
      then obtain p q where "cs = p @ sub @ q" using Cons.IH by blast
      then have "c # cs = (c # p) @ sub @ q" by simp
      then show ?thesis by blast
    qed
  next
    assume "\<exists>p q. c # cs = p @ sub @ q"
    then obtain p q where pq: "c # cs = p @ sub @ q" by blast
    show "str_contains sub (c # cs)"
    proof (cases p)
      case Nil
      then have "prefix sub (c # cs)" using pq by (simp add: prefix_def)
      then show ?thesis by simp
    next
      case (Cons a p')
      then have "cs = p' @ sub @ q" using pq by simp
      then have "str_contains sub cs" using Cons.IH by blast
      then show ?thesis by simp
    qed
  qed
qed

lemma any_in_strings:
  "any_in n (map JStr ss) = Inr (\<exists>s \<in> set ss. str_contains n s)"
  by (induction ss) auto


lemma list_available_models_state:
  "snd (list_available_models env self st) =
     \<lparr>world = snd (env_requests_get env (tags_request self) (world st)),
      trace = trace st @ [Requests_get (tags_request self)]\<rparr>"
  by (simp add: list_available_models_def requests_get_def external_eq tags_request_def
      split: sum.split)

lemma list_available_models_world:
  "world st = world st2 \<Longrightarrow>
   fst (list_available_models env self st) = fst (list_available_models env self st2)"
  by (simp add: list_available_models_def requests_get_def external_eq split: sum.split)

lemma check_model_availability_state:
  "snd (check_model_availability env self n st) = snd (list_available_models env self st)"
  by (simp add: check_model_availability_def split: prod.split sum.split)

lemma check_model_availability_result:
  "fst (check_model_availability env self n st) =
     (case fst (list_available_models env self st) of
        Inl e \<Rightarrow> Inl e
      | Inr ms \<Rightarrow> any_in n ms)"
  by (cases "list_available_models env self st")
     (simp add: check_model_availability_def split: sum.split)

lemma check_model_availability_world:
  "world st = world st2 \<Longrightarrow>
   fst (check_model_availability env self n st) = fst (check_model_availability env self n st2)"
  by (simp add: check_model_availability_result list_available_models_world [of st st2])

text \<open>
  Claim C2. When \<^verbatim>\<open>list_available_models\<close> returns a list of strings,
  \<^verbatim>\<open>check_model_availability\<close> returns whether the requested name occurs as a contiguous
  part of at least one of them: \<open>False\<close> on the empty catalog and when no entry contains
  the name, \<open>True\<close> for \<^verbatim>\<open>gemma3\<close> against a catalog holding \<^verbatim>\<open>gemma3:1b\<close>.
\<close>

theorem check_model_availability_substring:
  assumes "list_available_models env self st = (Inr (map JStr names), st')"
  shows "check_model_availability env self n st =
           (Inr (\<exists>s \<in> set names. \<exists>p q. s = p @ n @ q), st')"
  using assms by (simp add: check_model_availability_def any_in_strings str_contains_iff)

lemma model_names_tags: "model_names (map (\<lambda>n. JDict [(''name'', JStr n)]) names) = Inr (map JStr names)"
  by (induction names) auto

lemma list_available_models_fixed:
  "list_available_models (fixed_env (Inr (tags_response names)) ran_out kicked_out) self st =
     (Inr (map JStr names), \<lparr>world = (), trace = trace st @ [Requests_get (tags_request self)]\<rparr>)"
  by (simp add: list_available_models_def requests_get_def external_eq fixed_env_def
      tags_response_def names_of_response_def model_names_tags tags_request_def)

theorem check_model_availability_substring_witness:
  "list_available_models (fixed_env (Inr (tags_response [''gemma3:1b''])) (Inr (exited 0)) (Inr []))
      (OllamaManager_init default_base_url) start =
     (Inr (map JStr [''gemma3:1b'']),
      \<lparr>world = (), trace = [Requests_get (tags_request (OllamaManager_init default_base_url))]\<rparr>) \<and>
   check_model_availability (fixed_env (Inr (tags_response [''gemma3:1b''])) (Inr (exited 0)) (Inr []))
      (OllamaManager_init default_base_url) ''gemma3'' start =
     (Inr True,
      \<lparr>world = (), trace = [Requests_get (tags_request (OllamaManager_init default_base_url))]\<rparr>)"
proof -
  let ?E = "fixed_env (Inr (tags_response [''gemma3:1b''])) (Inr (exited 0)) (Inr [])"
  let ?M = "OllamaManager_init default_base_url"
  let ?S = "\<lparr>world = (), trace = [Requests_get (tags_request ?M)]\<rparr>"
  have h: "list_available_models ?E ?M start = (Inr (map JStr [''gemma3:1b'']), ?S)"
    by (simp add: list_available_models_fixed start_def)
  have "str_contains ''gemma3'' ''gemma3:1b''" by simp
  then have "\<exists>s \<in> set [''gemma3:1b'']. \<exists>p q. s = p @ ''gemma3'' @ q"
    by (simp add: str_contains_iff)
  with check_model_availability_substring [OF h, of "''gemma3''"] h show ?thesis by simp
qed


lemma TimeoutExpired_is_Exception: "isinstance_TimeoutExpired e \<Longrightarrow> isinstance_Exception e"
  by (cases e rule: isinstance_TimeoutExpired.cases) simp_all

lemma download_state:
  "snd (download env m st) =
     \<lparr>world = snd (env_subprocess_run env (pull_args m) (world st)),
      trace = trace st @ [Subprocess_run (pull_args m)]\<rparr>"
  by (simp add: download_def subprocess_run_def external_eq split: sum.split)

lemma download_result:
  "fst (download env m st) =
     (case fst (env_subprocess_run env (pull_args m) (world st)) of
        Inr result \<Rightarrow> Inr (returncode result = 0)
      | Inl e \<Rightarrow> if isinstance_Exception e then Inr False else Inl e)"
  by (simp add: download_def subprocess_run_def external_eq TimeoutExpired_is_Exception
      split: sum.split)

lemma pull_available:
  assumes "fst (check_model_availability env self m st) = Inr True"
  shows "pull_model_if_needed env self m st =
           (Inr True, snd (check_model_availability env self m (enter (Pull_model_if_needed m) st)))"
proof -
  have "fst (check_model_availability env self m (enter (Pull_model_if_needed m) st)) = Inr True"
    using assms check_model_availability_world [of "enter (Pull_model_if_needed m) st" st]
    by (simp add: enter_def)
  then show ?thesis
    by (cases "check_model_availability env self m (enter (Pull_model_if_needed m) st)")
       (simp add: pull_model_if_needed_def)
qed

lemma pull_missing:
  assumes "fst (check_model_availability env self m st) = Inr False"
  shows "pull_model_if_needed env self m st =
           download env m (snd (check_model_availability env self m (enter (Pull_model_if_needed m) st)))"
proof -
  have "fst (check_model_availability env self m (enter (Pull_model_if_needed m) st)) = Inr False"
    using assms check_model_availability_world [of "enter (Pull_model_if_needed m) st" st]
    by (simp add: enter_def)
  then show ?thesis
    by (cases "check_model_availability env self m (enter (Pull_model_if_needed m) st)")
       (simp add: pull_model_if_needed_def)
qed

lemma check_model_availability_entered:
  "snd (check_model_availability env self m (enter ev st)) =
     \<lparr>world = world (snd (check_model_availability env self m st)),
      trace = trace st @ [ev, Requests_get (tags_request self)]\<rparr>"
  by (simp add: check_model_availability_state list_available_models_state enter_def)

text \<open>
  Claim C1. When \<^verbatim>\<open>check_model_availability\<close> returns \<open>True\<close>, \<^verbatim>\<open>pull_model_if_needed\<close>
  returns \<open>True\<close> and runs no subprocess. When it returns \<open>False\<close>, exactly one subprocess
  is run, \<^verbatim>\<open>ollama pull\<close> of the model with a timeout of 1800 seconds, and the result is
  \<open>True\<close> exactly when that process returns with exit code 0; a non-zero exit code and a
  \<^verbatim>\<open>TimeoutExpired\<close> both give \<open>False\<close>.
\<close>

theorem pull_model_if_needed_downloads_only_when_missing:
  "(fst (check_model_availability env self m st) = Inr True \<longrightarrow>
      fst (pull_model_if_needed env self m st) = Inr True \<and>
      subprocess_runs (trace (snd (pull_model_if_needed env self m st))) =
        subprocess_runs (trace st)) \<and>
   (fst (check_model_availability env self m st) = Inr False \<longrightarrow>
      subprocess_runs (trace (snd (pull_model_if_needed env self m st))) =
        subprocess_runs (trace st) @ [pull_args m] \<and>
      args (pull_args m) = [''ollama'', ''pull'', m] \<and>
      run_timeout (pull_args m) = 1800 \<and>
      (fst (pull_model_if_needed env self m st) = Inr True) =
        (\<exists>result.
           fst (env_subprocess_run env (pull_args m)
                 (world (snd (check_model_availability env self m st)))) = Inr result \<and>
           returncode result = 0) \<and>
      ((\<exists>result.
          fst (env_subprocess_run env (pull_args m)
                (world (snd (check_model_availability env self m st)))) = Inr result \<and>
          returncode result \<noteq> 0) \<longrightarrow>
       fst (pull_model_if_needed env self m st) = Inr False) \<and>
      ((\<exists>e.
          fst (env_subprocess_run env (pull_args m)
                (world (snd (check_model_availability env self m st)))) = Inl e \<and>
          isinstance_TimeoutExpired e) \<longrightarrow>
       fst (pull_model_if_needed env self m st) = Inr False))"
proof (intro conjI impI)
  assume a: "fst (check_model_availability env self m st) = Inr True"
  show "fst (pull_model_if_needed env self m st) = Inr True"
    by (simp add: pull_available [OF a])
  show "subprocess_runs (trace (snd (pull_model_if_needed env self m st))) =
        subprocess_runs (trace st)"
    by (simp add: pull_available [OF a] check_model_availability_entered subprocess_runs_append)
next
  assume a: "fst (check_model_availability env self m st) = Inr False"
  let ?ran = "fst (env_subprocess_run env (pull_args m)
                 (world (snd (check_model_availability env self m st))))"
  have r: "fst (pull_model_if_needed env self m st) =
             (case ?ran of
                Inr result \<Rightarrow> Inr (returncode result = 0)
              | Inl e \<Rightarrow> if isinstance_Exception e then Inr False else Inl e)"
    by (simp add: pull_missing [OF a] download_result check_model_availability_entered)
  show "subprocess_runs (trace (snd (pull_model_if_needed env self m st))) =
        subprocess_runs (trace st) @ [pull_args m]"
    by (simp add: pull_missing [OF a] download_state check_model_availability_entered
        subprocess_runs_append)
  show "args (pull_args m) = [''ollama'', ''pull'', m]" by (simp add: pull_args_def)
  show "run_timeout (pull_args m) = 1800" by (simp add: pull_args_def)
  show "(fst (pull_model_if_needed env self m st) = Inr True) =
        (\<exists>result. ?ran = Inr result \<and> returncode result = 0)"
    unfolding r by (cases ?ran) auto
  show "fst (pull_model_if_needed env self m st) = Inr False"
    if "\<exists>result. ?ran = Inr result \<and> returncode result \<noteq> 0"
    using that unfolding r by auto
  show "fst (pull_model_if_needed env self m st) = Inr False"
    if "\<exists>e. ?ran = Inl e \<and> isinstance_TimeoutExpired e"
    using that unfolding r by (auto simp: TimeoutExpired_is_Exception)
qed


lemma check_model_availability_fixed:
  "check_model_availability (fixed_env (Inr (tags_response names)) ran_out kicked_out) self n st =
     (Inr (\<exists>s \<in> set names. str_contains n s),
      \<lparr>world = (), trace = trace st @ [Requests_get (tags_request self)]\<rparr>)"
  by (simp add: check_model_availability_def list_available_models_fixed any_in_strings)

theorem pull_model_if_needed_downloads_only_when_missing_witness:
  "(fst (pull_model_if_needed
          (fixed_env (Inr (tags_response [''gemma3:1b''])) (Inr (exited 0)) (Inr []))
          (OllamaManager_init default_base_url) ''gemma3:1b'' start) = Inr True \<and>
    subprocess_runs (trace (snd (pull_model_if_needed
          (fixed_env (Inr (tags_response [''gemma3:1b''])) (Inr (exited 0)) (Inr []))
          (OllamaManager_init default_base_url) ''gemma3:1b'' start))) = []) \<and>
   (fst (pull_model_if_needed
          (fixed_env (Inr (tags_response [])) (Inr (exited 1)) (Inr []))
          (OllamaManager_init default_base_url) ''gemma3:1b'' start) = Inr False \<and>
    subprocess_runs (trace (snd (pull_model_if_needed
          (fixed_env (Inr (tags_response [])) (Inr (exited 1)) (Inr []))
          (OllamaManager_init default_base_url) ''gemma3:1b'' start))) = [pull_args ''gemma3:1b'']) \<and>
   fst (pull_model_if_needed
          (fixed_env (Inr (tags_response [])) (Inl (Exn TimeoutExpired [])) (Inr []))
          (OllamaManager_init default_base_url) ''gemma3:1b'' start) = Inr False \<and>
   fst (pull_model_if_needed
          (fixed_env (Inr (tags_response [''qwen3:1.7b''])) (Inr (exited 0)) (Inr []))
          (OllamaManager_init default_base_url) ''gemma3:1b'' start) = Inr True"
proof -
  let ?M = "OllamaManager_init default_base_url"
  have e: "\<And>g r k a w. fst (env_subprocess_run (fixed_env g r k) a w) = r"
    by (simp add: fixed_env_def)
  have 1: "fst (check_model_availability
             (fixed_env (Inr (tags_response [''gemma3:1b''])) (Inr (exited 0)) (Inr []))
             ?M ''gemma3:1b'' start) = Inr True"
    by (simp add: check_model_availability_fixed)
  have 2: "\<And>r. fst (check_model_availability
             (fixed_env (Inr (tags_response [])) r (Inr [])) ?M ''gemma3:1b'' start) = Inr False"
    by (simp add: check_model_availability_fixed)
  have 3: "fst (check_model_availability
             (fixed_env (Inr (tags_response [''qwen3:1.7b''])) (Inr (exited 0)) (Inr []))
             ?M ''gemma3:1b'' start) = Inr False"
    by (simp add: check_model_availability_fixed)
  show ?thesis
    using pull_model_if_needed_downloads_only_when_missing [of "fixed_env (Inr (tags_response [''gemma3:1b''])) (Inr (exited 0)) (Inr [])"
                ?M "''gemma3:1b''" start]
      pull_model_if_needed_downloads_only_when_missing [of "fixed_env (Inr (tags_response [])) (Inr (exited 1)) (Inr [])"
                ?M "''gemma3:1b''" start]
      pull_model_if_needed_downloads_only_when_missing [of "fixed_env (Inr (tags_response [])) (Inl (Exn TimeoutExpired [])) (Inr [])"
                ?M "''gemma3:1b''" start]
      pull_model_if_needed_downloads_only_when_missing [of "fixed_env (Inr (tags_response [''qwen3:1.7b''])) (Inr (exited 0)) (Inr [])"
                ?M "''gemma3:1b''" start]
    by (simp add: 1 2 3 e returncode_exited trace_start)
qed

lemma pulls_append: "pulls (xs @ ys) = pulls xs @ pulls ys"
  by (induction xs) (auto split: event.splits)

lemma llm_inits_append: "llm_inits (xs @ ys) = llm_inits xs @ llm_inits ys"
  by (induction xs) (auto split: event.splits)

lemma kickoffs_append: "kickoffs (xs @ ys) = kickoffs xs @ kickoffs ys"
  by (induction xs) (auto split: event.splits)

text \<open>
  One call of \<^verbatim>\<open>pull_model_if_needed\<close> adds to the trace its own entry, the catalog
  request and at most one download.
\<close>

lemma pull_trace:
  "\<exists>evs. trace (snd (pull_model_if_needed env self m st)) =
           trace st @ Pull_model_if_needed m # Requests_get (tags_request self) # evs \<and>
         (evs = [] \<or> evs = [Subprocess_run (pull_args m)])"
proof (cases "check_model_availability env self m (enter (Pull_model_if_needed m) st)")
  case (Pair r st1)
  have st1: "st1 = \<lparr>world = world (snd (check_model_availability env self m st)),
                    trace = trace st @ [Pull_model_if_needed m, Requests_get (tags_request self)]\<rparr>"
    using check_model_availability_entered [of env self m "Pull_model_if_needed m" st] Pair
    by simp
  show ?thesis
  proof (cases r)
    case (Inl e)
    then show ?thesis using Pair st1 by (simp add: pull_model_if_needed_def)
  next
    case (Inr available)
    show ?thesis
    proof (cases available)
      case True
      then show ?thesis using Pair Inr st1 by (simp add: pull_model_if_needed_def)
    next
      case False
      have "trace (snd (download env m st1)) = trace st1 @ [Subprocess_run (pull_args m)]"
        by (simp add: download_state)
      then show ?thesis using Pair Inr False st1 by (simp add: pull_model_if_needed_def)
    qed
  qed
qed

lemma pull_pulls:
  "pulls (trace (snd (pull_model_if_needed env self m st))) = pulls (trace st) @ [m]"
proof -
  obtain evs where
    "trace (snd (pull_model_if_needed env self m st)) =
       trace st @ Pull_model_if_needed m # Requests_get (tags_request self) # evs"
    and "evs = [] \<or> evs = [Subprocess_run (pull_args m)]"
    using pull_trace by blast
  then show ?thesis by (auto simp: pulls_append)
qed

lemma pull_llm_inits:
  "llm_inits (trace (snd (pull_model_if_needed env self m st))) = llm_inits (trace st)"
proof -
  obtain evs where
    "trace (snd (pull_model_if_needed env self m st)) =
       trace st @ Pull_model_if_needed m # Requests_get (tags_request self) # evs"
    and "evs = [] \<or> evs = [Subprocess_run (pull_args m)]"
    using pull_trace by blast
  then show ?thesis by (auto simp: llm_inits_append)
qed

text \<open>The loop never constructs a handle, and a loop that returns has pulled every model.\<close>

lemma loop_llm_inits:
  "llm_inits (trace (snd (download_required_models env mgr cs ready st))) = llm_inits (trace st)"
proof (induction cs arbitrary: ready st)
  case Nil
  then show ?case by simp
next
  case (Cons c cs)
  show ?case
  proof (cases "pull_model_if_needed env mgr (ollama_model c) st")
    case (Pair r st1)
    have l: "llm_inits (trace st1) = llm_inits (trace st)"
      using pull_llm_inits [of env mgr "ollama_model c" st] Pair by simp
    show ?thesis
    proof (cases r)
      case (Inl e)
      then show ?thesis using Pair l by simp
    next
      case (Inr ok)
      then show ?thesis using Pair l Cons.IH [of _ st1] by simp
    qed
  qed
qed

lemma loop_pulls:
  "fst (download_required_models env mgr cs ready st) = Inr b \<Longrightarrow>
   pulls (trace (snd (download_required_models env mgr cs ready st))) =
     pulls (trace st) @ map ollama_model cs"
proof (induction cs arbitrary: ready st)
  case Nil
  then show ?case by simp
next
  case (Cons c cs)
  show ?case
  proof (cases "pull_model_if_needed env mgr (ollama_model c) st")
    case (Pair r st1)
    have p: "pulls (trace st1) = pulls (trace st) @ [ollama_model c]"
      using pull_pulls [of env mgr "ollama_model c" st] Pair by simp
    show ?thesis
    proof (cases r)
      case (Inl e)
      then show ?thesis using Pair Cons.prems by simp
    next
      case (Inr ok)
      then show ?thesis using Pair p Cons.prems Cons.IH [of _ st1] by simp
    qed
  qed
qed

text \<open>
  When no pull raises, the loop returns, and its flag says that it started set and
  that no pull returned \<open>False\<close>.
\<close>

lemma loop_result:
  "\<forall>r \<in> set (pull_results env mgr cs st). \<exists>ok. r = Inr ok \<Longrightarrow>
   fst (download_required_models env mgr cs ready st) =
     Inr (ready \<and> Inr False \<notin> set (pull_results env mgr cs st))"
proof (induction cs arbitrary: ready st)
  case Nil
  then show ?case by simp
next
  case (Cons c cs)
  show ?case
  proof (cases "pull_model_if_needed env mgr (ollama_model c) st")
    case (Pair r st1)
    show ?thesis
    proof (cases r)
      case (Inl e)
      then show ?thesis using Pair Cons.prems by simp
    next
      case (Inr ok)
      then have "\<forall>r \<in> set (pull_results env mgr cs st1). \<exists>ok. r = Inr ok"
        using Pair Cons.prems by simp
      then show ?thesis using Pair Inr Cons.IH [of st1] by auto
    qed
  qed
qed

text \<open>Once a pull has returned \<open>False\<close>, the loop cannot return \<open>True\<close>.\<close>

lemma loop_not_ready:
  "fst (download_required_models env mgr cs False st) \<noteq> Inr True"
proof (induction cs arbitrary: st)
  case Nil
  then show ?case by simp
next
  case (Cons c cs)
  show ?case
  proof (cases "pull_model_if_needed env mgr (ollama_model c) st")
    case (Pair r st1)
    then show ?thesis using Cons.IH [of st1] by (cases r) simp_all
  qed
qed

lemma loop_failed_pull:
  "Inr False \<in> set (pull_results env mgr cs st) \<Longrightarrow>
   fst (download_required_models env mgr cs ready st) \<noteq> Inr True"
proof (induction cs arbitrary: ready st)
  case Nil
  then show ?case by simp
next
  case (Cons c cs)
  show ?case
  proof (cases "pull_model_if_needed env mgr (ollama_model c) st")
    case (Pair r st1)
    show ?thesis
    proof (cases r)
      case (Inl e)
      then show ?thesis using Pair by simp
    next
      case (Inr ok)
      show ?thesis
      proof (cases ok)
        case True
        then have "Inr False \<in> set (pull_results env mgr cs st1)"
          using Pair Inr Cons.prems by simp
        then show ?thesis using Pair Inr True Cons.IH [of st1] by simp
      next
        case False
        then show ?thesis using Pair Inr loop_not_ready [of env mgr cs st1] by simp
      qed
    qed
  qed
qed


text \<open>The four ways through \<^verbatim>\<open>initialize_system\<close>.\<close>

lemma initialize_system_not_running:
  "fst (check_ollama_status env (ollama_manager self) st) = Inr False \<Longrightarrow>
   initialize_system env self st =
     (Inr False, self, snd (check_ollama_status env (ollama_manager self) st))"
  by (cases "check_ollama_status env (ollama_manager self) st")
     (simp add: initialize_system_def)

lemma initialize_system_not_ready:
  "fst (check_ollama_status env (ollama_manager self) st) = Inr True \<Longrightarrow>
   fst (download_required_models env (ollama_manager self) (map snd (models_config self)) True
          (snd (check_ollama_status env (ollama_manager self) st))) = Inr False \<Longrightarrow>
   initialize_system env self st =
     (Inr False, self,
      snd (download_required_models env (ollama_manager self) (map snd (models_config self)) True
             (snd (check_ollama_status env (ollama_manager self) st))))"
  by (cases "check_ollama_status env (ollama_manager self) st";
      cases "download_required_models env (ollama_manager self) (map snd (models_config self)) True
               (snd (check_ollama_status env (ollama_manager self) st))")
     (simp add: initialize_system_def)

lemma initialize_system_pull_raises:
  "fst (check_ollama_status env (ollama_manager self) st) = Inr True \<Longrightarrow>
   fst (download_required_models env (ollama_manager self) (map snd (models_config self)) True
          (snd (check_ollama_status env (ollama_manager self) st))) = Inl e \<Longrightarrow>
   initialize_system env self st =
     (Inl e, self,
      snd (download_required_models env (ollama_manager self) (map snd (models_config self)) True
             (snd (check_ollama_status env (ollama_manager self) st))))"
  by (cases "check_ollama_status env (ollama_manager self) st";
      cases "download_required_models env (ollama_manager self) (map snd (models_config self)) True
               (snd (check_ollama_status env (ollama_manager self) st))")
     (simp add: initialize_system_def)

lemma initialize_system_ready:
  "fst (check_ollama_status env (ollama_manager self) st) = Inr True \<Longrightarrow>
   fst (download_required_models env (ollama_manager self) (map snd (models_config self)) True
          (snd (check_ollama_status env (ollama_manager self) st))) = Inr True \<Longrightarrow>
   fst (initialize_system env self st) \<noteq> Inr False"
  by (cases "check_ollama_status env (ollama_manager self) st";
      cases "download_required_models env (ollama_manager self) (map snd (models_config self)) True
               (snd (check_ollama_status env (ollama_manager self) st))")
     (simp add: initialize_system_def split: prod.split sum.split)

lemma check_ollama_status_llm_inits:
  "llm_inits (trace (snd (check_ollama_status env mgr st))) = llm_inits (trace st)"
  by (simp add: check_ollama_status_state llm_inits_append)

lemma check_ollama_status_pulls:
  "pulls (trace (snd (check_ollama_status env mgr st))) = pulls (trace st)"
  by (simp add: check_ollama_status_state pulls_append)

text \<open>
  Claim C3. \<^verbatim>\<open>initialize_system\<close> fails fast. When the status check returns \<open>False\<close>
  it returns \<open>False\<close>. When the status check passes and one of the pulls of the loop
  returns \<open>False\<close>, it does not return \<open>True\<close>, and it returns \<open>False\<close> when none of the
  pulls raises. In both cases the instance, and with it the \<open>llms\<close> map, is as before
  and no \<^verbatim>\<open>LLM\<close> has been constructed: \<^verbatim>\<open>_setup_llm_connections\<close> is not reached.
\<close>

theorem initialize_system_fails_fast:
  "(fst (check_ollama_status env (ollama_manager self) st) = Inr False \<longrightarrow>
      fst (initialize_system env self st) = Inr False \<and>
      fst (snd (initialize_system env self st)) = self \<and>
      llm_inits (trace (snd (snd (initialize_system env self st)))) = llm_inits (trace st)) \<and>
   (fst (check_ollama_status env (ollama_manager self) st) = Inr True \<and>
    Inr False \<in> set (pull_results env (ollama_manager self) (map snd (models_config self))
                       (snd (check_ollama_status env (ollama_manager self) st))) \<longrightarrow>
      fst (initialize_system env self st) \<noteq> Inr True \<and>
      fst (snd (initialize_system env self st)) = self \<and>
      llm_inits (trace (snd (snd (initialize_system env self st)))) = llm_inits (trace st) \<and>
      ((\<forall>r \<in> set (pull_results env (ollama_manager self) (map snd (models_config self))
                     (snd (check_ollama_status env (ollama_manager self) st))).
          \<exists>ok. r = Inr ok) \<longrightarrow>
       fst (initialize_system env self st) = Inr False))"
proof (intro conjI impI)
  assume a: "fst (check_ollama_status env (ollama_manager self) st) = Inr False"
  show "fst (initialize_system env self st) = Inr False"
    by (simp add: initialize_system_not_running [OF a])
  show "fst (snd (initialize_system env self st)) = self"
    by (simp add: initialize_system_not_running [OF a])
  show "llm_inits (trace (snd (snd (initialize_system env self st)))) = llm_inits (trace st)"
    by (simp add: initialize_system_not_running [OF a] check_ollama_status_llm_inits)
next
  let ?st1 = "snd (check_ollama_status env (ollama_manager self) st)"
  let ?loop = "download_required_models env (ollama_manager self) (map snd (models_config self))
                 True ?st1"
  let ?results = "pull_results env (ollama_manager self) (map snd (models_config self)) ?st1"
  assume "fst (check_ollama_status env (ollama_manager self) st) = Inr True \<and>
          Inr False \<in> set ?results"
  then have a: "fst (check_ollama_status env (ollama_manager self) st) = Inr True"
    and f: "Inr False \<in> set ?results" by simp_all
  have n: "fst ?loop \<noteq> Inr True" using f by (rule loop_failed_pull)
  have l: "llm_inits (trace (snd ?loop)) = llm_inits (trace st)"
    by (simp add: loop_llm_inits check_ollama_status_llm_inits)
  consider e where "fst ?loop = Inl e" | "fst ?loop = Inr False"
    using n by (cases "fst ?loop") auto
  then have r: "fst (initialize_system env self st) \<noteq> Inr True \<and>
      fst (snd (initialize_system env self st)) = self \<and>
      llm_inits (trace (snd (snd (initialize_system env self st)))) = llm_inits (trace st)"
  proof cases
    case 1
    show ?thesis by (simp add: initialize_system_pull_raises [OF a 1] l)
  next
    case 2
    show ?thesis by (simp add: initialize_system_not_ready [OF a 2] l)
  qed
  from r show "fst (initialize_system env self st) \<noteq> Inr True" by simp
  from r show "fst (snd (initialize_system env self st)) = self" by simp
  from r show "llm_inits (trace (snd (snd (initialize_system env self st)))) =
               llm_inits (trace st)" by simp
  show "fst (initialize_system env self st) = Inr False"
    if "\<forall>r \<in> set ?results. \<exists>ok. r = Inr ok"
  proof -
    have "fst ?loop = Inr (True \<and> Inr False \<notin> set ?results)"
      using that by (rule loop_result)
    then have "fst ?loop = Inr False" using f by simp
    then show ?thesis by (simp add: initialize_system_not_ready [OF a])
  qed
qed


text \<open>The sample environments, evaluated.\<close>

lemma check_ollama_status_fixed:
  "fst (check_ollama_status (fixed_env got_out ran_out kicked_out) mgr st) =
     (case got_out of
        Inr response \<Rightarrow> Inr (status_code response = 200)
      | Inl e \<Rightarrow> if isinstance_RequestException e then Inr False else Inl e)"
  by (simp add: check_ollama_status_result fixed_env_def)

lemma pull_fixed:
  "fst (pull_model_if_needed (fixed_env (Inr (tags_response names)) (Inr (exited c)) kicked_out)
          mgr m st) =
     Inr ((\<exists>s \<in> set names. str_contains m s) \<or> c = 0)"
proof (cases "\<exists>s \<in> set names. str_contains m s")
  case True
  then have "fst (check_model_availability
                    (fixed_env (Inr (tags_response names)) (Inr (exited c)) kicked_out)
                    mgr m st) = Inr True"
    by (simp add: check_model_availability_fixed)
  then show ?thesis using True by (simp add: pull_available)
next
  case False
  then have "fst (check_model_availability
                    (fixed_env (Inr (tags_response names)) (Inr (exited c)) kicked_out)
                    mgr m st) = Inr False"
    by (simp add: check_model_availability_fixed)
  then show ?thesis using False
    by (simp add: pull_missing download_result fixed_env_def returncode_exited)
qed

lemma pull_results_fixed:
  "pull_results (fixed_env (Inr (tags_response names)) (Inr (exited c)) kicked_out) mgr cs st =
     map (\<lambda>cfg. Inr ((\<exists>s \<in> set names. str_contains (ollama_model cfg) s) \<or> c = 0)) cs"
proof (induction cs arbitrary: st)
  case Nil
  then show ?case by simp
next
  case (Cons cfg cs)
  show ?case
  proof (cases "pull_model_if_needed
                  (fixed_env (Inr (tags_response names)) (Inr (exited c)) kicked_out)
                  mgr (ollama_model cfg) st")
    case (Pair r st1)
    then have "r = Inr ((\<exists>s \<in> set names. str_contains (ollama_model cfg) s) \<or> c = 0)"
      using pull_fixed [of names c kicked_out mgr "ollama_model cfg" st] by simp
    then show ?thesis using Pair Cons.IH [of st1] by simp
  qed
qed

lemma configured_models:
  "map (\<lambda>kc. ollama_model (snd kc)) (models_config MultiModelCrew_init) =
     [''qwen3:1.7b'', ''deepseek-r1:8b'', ''gemma3:1b'']"
  by (simp add: MultiModelCrew_init_def setup_model_configurations_def)

lemma llms_init: "llms MultiModelCrew_init = Map.empty"
  by (simp add: MultiModelCrew_init_def)

theorem initialize_system_fails_fast_witness:
  "(fst (initialize_system
           (fixed_env (Inl (Exn RequestException ''Connection refused'')) (Inr (exited 0)) (Inr []))
           MultiModelCrew_init start) = Inr False \<and>
    llms (fst (snd (initialize_system
           (fixed_env (Inl (Exn RequestException ''Connection refused'')) (Inr (exited 0)) (Inr []))
           MultiModelCrew_init start))) = Map.empty \<and>
    llm_inits (trace (snd (snd (initialize_system
           (fixed_env (Inl (Exn RequestException ''Connection refused'')) (Inr (exited 0)) (Inr []))
           MultiModelCrew_init start)))) = []) \<and>
   (fst (initialize_system
           (fixed_env (Inr (tags_response [''qwen3:1.7b''])) (Inr (exited 1)) (Inr []))
           MultiModelCrew_init start) = Inr False \<and>
    llms (fst (snd (initialize_system
           (fixed_env (Inr (tags_response [''qwen3:1.7b''])) (Inr (exited 1)) (Inr []))
           MultiModelCrew_init start))) = Map.empty \<and>
    llm_inits (trace (snd (snd (initialize_system
           (fixed_env (Inr (tags_response [''qwen3:1.7b''])) (Inr (exited 1)) (Inr []))
           MultiModelCrew_init start)))) = [])"
proof -
  let ?off = "fixed_env (Inl (Exn RequestException ''Connection refused'')) (Inr (exited 0)) (Inr [])"
  let ?bad = "fixed_env (Inr (tags_response [''qwen3:1.7b''])) (Inr (exited 1)) (Inr [])"
  have 1: "fst (check_ollama_status ?off (ollama_manager MultiModelCrew_init) start) = Inr False"
    by (simp add: check_ollama_status_fixed)
  have 2: "fst (check_ollama_status ?bad (ollama_manager MultiModelCrew_init) start) = Inr True"
    by (simp add: check_ollama_status_fixed tags_response_def)
  have 3: "\<And>st. pull_results ?bad (ollama_manager MultiModelCrew_init)
             (map snd (models_config MultiModelCrew_init)) st = [Inr True, Inr False, Inr False]"
    unfolding pull_results_fixed
    by (simp add: MultiModelCrew_init_def setup_model_configurations_def)
  have 4: "(\<exists>ok::bool. ok) \<and> (\<exists>ok::bool. \<not> ok)" by auto
  from initialize_system_fails_fast [of ?off MultiModelCrew_init start]
       initialize_system_fails_fast [of ?bad MultiModelCrew_init start]
  show ?thesis
    by (simp add: 1 2 3 4 llms_init trace_start)
qed

text \<open>
  Claim C10. The loop of \<^verbatim>\<open>initialize_system\<close> does not stop at a failed pull. When
  the status check has passed and \<^verbatim>\<open>initialize_system\<close> returns \<open>False\<close>,
  \<^verbatim>\<open>pull_model_if_needed\<close> has been entered once for every configured model, in the order
  of the configuration; for the configuration of the source these are the three models
  \<^verbatim>\<open>qwen3:1.7b\<close>, \<^verbatim>\<open>deepseek-r1:8b\<close> and \<^verbatim>\<open>gemma3:1b\<close>.
\<close>

theorem initialize_system_pulls_every_model:
  assumes "fst (check_ollama_status env (ollama_manager self) st) = Inr True"
    and "fst (initialize_system env self st) = Inr False"
  shows "pulls (trace (snd (snd (initialize_system env self st)))) =
           pulls (trace st) @ map (\<lambda>kc. ollama_model (snd kc)) (models_config self) \<and>
         map (\<lambda>kc. ollama_model (snd kc)) (models_config MultiModelCrew_init) =
           [''qwen3:1.7b'', ''deepseek-r1:8b'', ''gemma3:1b'']"
proof -
  let ?st1 = "snd (check_ollama_status env (ollama_manager self) st)"
  let ?loop = "download_required_models env (ollama_manager self) (map snd (models_config self))
                 True ?st1"
  have f: "fst ?loop = Inr False"
  proof (cases "fst ?loop")
    case (Inl e)
    then show ?thesis
      using assms(2) initialize_system_pull_raises [OF assms(1), of e] by simp
  next
    case (Inr ready)
    then show ?thesis
      using assms(2) initialize_system_ready [OF assms(1)] by (cases ready) simp_all
  qed
  have "pulls (trace (snd ?loop)) = pulls (trace ?st1) @ map ollama_model (map snd (models_config self))"
    using f by (rule loop_pulls)
  then have "pulls (trace (snd (snd (initialize_system env self st)))) =
           pulls (trace st) @ map (\<lambda>kc. ollama_model (snd kc)) (models_config self)"
    by (simp add: initialize_system_not_ready [OF assms(1) f] check_ollama_status_pulls comp_def)
  then show ?thesis by (simp add: configured_models)
qed

theorem initialize_system_pulls_every_model_witness:
  "fst (check_ollama_status
          (fixed_env (Inr (tags_response [''gemma3:1b''])) (Inr (exited 1)) (Inr []))
          (ollama_manager MultiModelCrew_init) start) = Inr True \<and>
   fst (initialize_system
          (fixed_env (Inr (tags_response [''gemma3:1b''])) (Inr (exited 1)) (Inr []))
          MultiModelCrew_init start) = Inr False \<and>
   pulls (trace (snd (snd (initialize_system
          (fixed_env (Inr (tags_response [''gemma3:1b''])) (Inr (exited 1)) (Inr []))
          MultiModelCrew_init start)))) = [''qwen3:1.7b'', ''deepseek-r1:8b'', ''gemma3:1b'']"
proof -
  let ?bad = "fixed_env (Inr (tags_response [''gemma3:1b''])) (Inr (exited 1)) (Inr [])"
  let ?st1 = "snd (check_ollama_status ?bad (ollama_manager MultiModelCrew_init) start)"
  have 1: "fst (check_ollama_status ?bad (ollama_manager MultiModelCrew_init) start) = Inr True"
    by (simp add: check_ollama_status_fixed tags_response_def)
  have pr: "pull_results ?bad (ollama_manager MultiModelCrew_init)
          (map snd (models_config MultiModelCrew_init)) ?st1 = [Inr False, Inr False, Inr True]"
    unfolding pull_results_fixed
    by (simp add: MultiModelCrew_init_def setup_model_configurations_def)
  have "\<forall>r \<in> set (pull_results ?bad (ollama_manager MultiModelCrew_init)
          (map snd (models_config MultiModelCrew_init)) ?st1). \<exists>ok. r = Inr ok"
    unfolding pr by auto
  then have "fst (download_required_models ?bad (ollama_manager MultiModelCrew_init)
                    (map snd (models_config MultiModelCrew_init)) True ?st1) =
               Inr (True \<and> Inr False \<notin> set (pull_results ?bad (ollama_manager MultiModelCrew_init)
                      (map snd (models_config MultiModelCrew_init)) ?st1))"
    by (rule loop_result)
  then have "fst (download_required_models ?bad (ollama_manager MultiModelCrew_init)
                    (map snd (models_config MultiModelCrew_init)) True ?st1) = Inr False"
    unfolding pr by simp
  then have 2: "fst (initialize_system ?bad MultiModelCrew_init start) = Inr False"
    by (simp add: initialize_system_not_ready [OF 1])
  from initialize_system_pulls_every_model [OF 1 2] 1 2 show ?thesis
    by (simp add: trace_start)
qed


text \<open>What \<^verbatim>\<open>solve_problem\<close> builds, and what it does with the outcome of the kickoff.\<close>

lemma build_crew_Inr:
  assumes "build_crew self problem = Inr c"
  shows "\<exists>l1 l2 l3.
           llms self ''analyst'' = Some l1 \<and> llms self ''researcher'' = Some l2 \<and>
           llms self ''synthesizer'' = Some l3 \<and>
           c = crew [analyst l1, researcher self l2, synthesizer l3]
                 [analysis_task problem (analyst l1),
                  research_task (researcher self l2) (analysis_task problem (analyst l1)),
                  synthesis_task (synthesizer l3)
                    (research_task (researcher self l2) (analysis_task problem (analyst l1)))]"
  using assms
  by (auto simp add: build_crew_def construct_crew_def llms_getitem_def raise_def Let_def
      split: option.splits)

lemma build_crew_initialized: "\<exists>c. build_crew initialized problem = Inr c"
  by (simp add: build_crew_def construct_crew_def llms_getitem_def initialized_def
      MultiModelCrew_init_def setup_model_configurations_def Let_def)

lemma construct_crew_events:
  assumes "build_crew self problem = Inr c"
  shows "snd (construct_crew self problem) =
           map Agent_init (agents c) @ map Task_init (tasks c) @ [Crew_init c]"
  using assms
  by (auto simp add: build_crew_def construct_crew_def llms_getitem_def raise_def Let_def
      crew_def split: option.splits)

lemma construct_crew_built:
  "build_crew self problem = Inr c \<Longrightarrow>
   construct_crew self problem =
     (Inr c, map Agent_init (agents c) @ map Task_init (tasks c) @ [Crew_init c])"
  using construct_crew_events [of self problem c]
  by (cases "construct_crew self problem") (simp add: build_crew_def)

lemma solve_problem_state:
  "build_crew self problem = Inr c \<Longrightarrow>
   snd (snd (solve_problem env self problem st)) =
     \<lparr>world = snd (env_kickoff env c [(''problem'', problem)] (world st)),
      trace = trace st @ map Agent_init (agents c) @ map Task_init (tasks c) @
              [Crew_init c, Crew_kickoff c [(''problem'', problem)]]\<rparr>"
  by (simp add: solve_problem_def construct_crew_built kickoff_def external_eq split: sum.split)

lemma solve_problem_result:
  "build_crew self problem = Inr c \<Longrightarrow>
   fst (solve_problem env self problem st) =
     (case fst (env_kickoff env c [(''problem'', problem)] (world st)) of
        Inr result \<Rightarrow> Inr result
      | Inl e \<Rightarrow> if isinstance_Exception e then Inr (''Error: '' @ exn_str e) else Inl e)"
  by (simp add: solve_problem_def construct_crew_built kickoff_def external_eq split: sum.split)

lemma solve_problem_self: "fst (snd (solve_problem env self problem st)) = self"
  by (simp add: solve_problem_def split: sum.split prod.split)

lemma solve_problem_not_built:
  "build_crew self problem = Inl e \<Longrightarrow> fst (solve_problem env self problem st) = Inl e"
  by (cases "construct_crew self problem") (simp add: solve_problem_def build_crew_def)

text \<open>
  Claim C4, as amended. An exception raised by the kickoff that is an instance of
  \<^verbatim>\<open>Exception\<close> is caught: \<^verbatim>\<open>solve_problem\<close> returns the string \<^verbatim>\<open>Error: \<close> followed by
  \<^verbatim>\<open>str(e)\<close>, in the same way as it returns the answer of a kickoff that succeeds, so that
  only the text of the returned string tells the two apart. An exception that is not
  an instance of \<^verbatim>\<open>Exception\<close> is outside the \<^verbatim>\<open>except\<close> clause and propagates.
\<close>

theorem solve_problem_catches_Exception:
  assumes "build_crew self problem = Inr c"
  shows "(\<forall>e. fst (env_kickoff env c [(''problem'', problem)] (world st)) = Inl e \<and>
              isinstance_Exception e \<longrightarrow>
            fst (solve_problem env self problem st) = Inr (''Error: '' @ exn_str e)) \<and>
         (\<forall>result. fst (env_kickoff env c [(''problem'', problem)] (world st)) = Inr result \<longrightarrow>
            fst (solve_problem env self problem st) = Inr result) \<and>
         (\<forall>e. fst (env_kickoff env c [(''problem'', problem)] (world st)) = Inl e \<and>
              \<not> isinstance_Exception e \<longrightarrow>
            fst (solve_problem env self problem st) = Inl e)"
  by (simp add: solve_problem_result [OF assms])

theorem solve_problem_catches_Exception_witness:
  "fst (solve_problem
          (fixed_env (Inr (tags_response [])) (Inr (exited 0))
             (Inl (Exn OtherException ''model not found'')))
          initialized ''What is 2+2?'' start) = Inr ''Error: model not found'' \<and>
   fst (solve_problem
          (fixed_env (Inr (tags_response [])) (Inr (exited 0)) (Inr ''Error: model not found''))
          initialized ''What is 2+2?'' start) = Inr ''Error: model not found'' \<and>
   fst (solve_problem
          (fixed_env (Inr (tags_response [])) (Inr (exited 0)) (Inl (Exn SystemExit ''1'')))
          initialized ''What is 2+2?'' start) = Inl (Exn SystemExit ''1'')"
proof -
  obtain c where c: "build_crew initialized ''What is 2+2?'' = Inr c"
    using build_crew_initialized by blast
  have k: "\<And>g r k c i w. fst (env_kickoff (fixed_env g r k) c i w) = k"
    by (simp add: fixed_env_def)
  from solve_problem_catches_Exception [OF c, of
         "fixed_env (Inr (tags_response [])) (Inr (exited 0))
            (Inl (Exn OtherException ''model not found''))" start]
       solve_problem_catches_Exception [OF c, of
         "fixed_env (Inr (tags_response [])) (Inr (exited 0)) (Inr ''Error: model not found'')"
         start]
       solve_problem_catches_Exception [OF c, of
         "fixed_env (Inr (tags_response [])) (Inr (exited 0)) (Inl (Exn SystemExit ''1''))"
         start]
  show ?thesis by (simp add: k)
qed

text \<open>
  The claim as stated, for any exception, fails: a \<^verbatim>\<open>KeyboardInterrupt\<close> raised during the
  kickoff leaves \<^verbatim>\<open>solve_problem\<close> as an exception and no string is returned.
\<close>

theorem solve_problem_propagates_KeyboardInterrupt:
  "fst (solve_problem
          (fixed_env (Inr (tags_response [])) (Inr (exited 0)) (Inl (Exn KeyboardInterrupt [])))
          initialized ''What is 2+2?'' start) = Inl (Exn KeyboardInterrupt [])"
proof -
  obtain c where c: "build_crew initialized ''What is 2+2?'' = Inr c"
    using build_crew_initialized by blast
  show ?thesis by (simp add: solve_problem_result [OF c] fixed_env_def)
qed


lemma llms_getitem_reads:
  "llms_getitem
     (self\<lparr>ollama_manager := m, models_config := mc, self_agents := ags, knowledge_base := kb\<rparr>)
     key = llms_getitem self key"
  by (simp add: llms_getitem_def)

lemma researcher_reads:
  "researcher
     (self\<lparr>ollama_manager := m, models_config := mc, self_agents := ags, knowledge_base := kb\<rparr>)
     l = researcher self l"
  by (simp add: researcher_def)

lemma build_crew_reads:
  "build_crew
     (self\<lparr>ollama_manager := m, models_config := mc, self_agents := ags, knowledge_base := kb\<rparr>)
     problem = build_crew self problem"
  unfolding build_crew_def construct_crew_def llms_getitem_reads researcher_reads ..

lemma built_crew_settings:
  "build_crew self problem = Inr c \<Longrightarrow> memory c = False \<and> max_rpm c = 30"
  by (auto dest!: build_crew_Inr simp add: crew_def)

lemma built_crew_objects:
  assumes "build_crew self problem = Inr c"
  shows "\<exists>l1 l2 l3.
           llms self ''analyst'' = Some l1 \<and> llms self ''researcher'' = Some l2 \<and>
           llms self ''synthesizer'' = Some l3 \<and>
           agents c = [analyst l1, researcher self l2, synthesizer l3] \<and>
           tasks c =
             [analysis_task problem (analyst l1),
              research_task (researcher self l2) (analysis_task problem (analyst l1)),
              synthesis_task (synthesizer l3)
                (research_task (researcher self l2) (analysis_task problem (analyst l1)))]"
  using build_crew_Inr [OF assms] by (auto simp add: crew_def)

lemma kickoffs_Agent_init: "kickoffs (map Agent_init xs) = []"
  by (induction xs) simp_all

lemma kickoffs_Task_init: "kickoffs (map Task_init xs) = []"
  by (induction xs) simp_all

text \<open>
  Claim C6. Every call of \<^verbatim>\<open>solve_problem\<close> constructs its objects itself: when the
  three handles are present it calls the constructors of three agents, three tasks and
  one crew, in this order, and kicks off the crew it has just constructed, whose agents
  and tasks are the ones just constructed. They are built from the problem and from
  the handles and tools of the instance; no other field of the instance is read. The
  crew has \<open>memory = False\<close> and \<open>max_rpm = 30\<close>. The call returns the instance as it
  received it, so nothing of a run is kept on it, and a second call with the same
  problem is the call a first run would make in the world the first one left: it
  makes the same constructor calls again and kicks off an equal crew, and once a first
  call has returned, a second one raises only what its own kickoff raises outside
  \<^verbatim>\<open>Exception\<close>.
\<close>

theorem solve_problem_leaves_no_state:
  "fst (snd (solve_problem env self problem st)) = self \<and>
   build_crew
     (self\<lparr>ollama_manager := m, models_config := mc, self_agents := ags, knowledge_base := kb\<rparr>)
     problem = build_crew self problem \<and>
   solve_problem env (fst (snd (solve_problem env self problem st))) problem other =
     solve_problem env self problem other \<and>
   (\<forall>c. build_crew self problem = Inr c \<longrightarrow>
      (\<exists>l1 l2 l3.
         llms self ''analyst'' = Some l1 \<and> llms self ''researcher'' = Some l2 \<and>
         llms self ''synthesizer'' = Some l3 \<and>
         agents c = [analyst l1, researcher self l2, synthesizer l3] \<and>
         tasks c =
           [analysis_task problem (analyst l1),
            research_task (researcher self l2) (analysis_task problem (analyst l1)),
            synthesis_task (synthesizer l3)
              (research_task (researcher self l2) (analysis_task problem (analyst l1)))]) \<and>
      memory c = False \<and> max_rpm c = 30 \<and>
      trace (snd (snd (solve_problem env self problem st))) =
        trace st @ map Agent_init (agents c) @ map Task_init (tasks c) @
          [Crew_init c, Crew_kickoff c [(''problem'', problem)]] \<and>
      trace (snd (snd (solve_problem env
          (fst (snd (solve_problem env self problem st))) problem
          (snd (snd (solve_problem env self problem st)))))) =
        trace st @
          (map Agent_init (agents c) @ map Task_init (tasks c) @
             [Crew_init c, Crew_kickoff c [(''problem'', problem)]]) @
          (map Agent_init (agents c) @ map Task_init (tasks c) @
             [Crew_init c, Crew_kickoff c [(''problem'', problem)]]) \<and>
      kickoffs (trace (snd (snd (solve_problem env self problem st)))) =
        kickoffs (trace st) @ [(c, [(''problem'', problem)])] \<and>
      kickoffs (trace (snd (snd (solve_problem env
          (fst (snd (solve_problem env self problem st))) problem
          (snd (snd (solve_problem env self problem st))))))) =
        kickoffs (trace st) @ [(c, [(''problem'', problem)]), (c, [(''problem'', problem)])]) \<and>
   (\<forall>answer e.
      fst (solve_problem env self problem st) = Inr answer \<and>
      fst (solve_problem env (fst (snd (solve_problem env self problem st))) problem
             (snd (snd (solve_problem env self problem st)))) = Inl e \<longrightarrow>
      \<not> isinstance_Exception e \<and>
      (\<exists>c. build_crew self problem = Inr c \<and>
           fst (env_kickoff env c [(''problem'', problem)]
                  (world (snd (snd (solve_problem env self problem st))))) = Inl e))"
proof (intro conjI allI impI)
  show s: "fst (snd (solve_problem env self problem st)) = self"
    by (rule solve_problem_self)
  show "build_crew
     (self\<lparr>ollama_manager := m, models_config := mc, self_agents := ags, knowledge_base := kb\<rparr>)
     problem = build_crew self problem"
    by (rule build_crew_reads)
  show "solve_problem env (fst (snd (solve_problem env self problem st))) problem other =
        solve_problem env self problem other"
    by (simp add: solve_problem_self)
next
  fix c
  assume c: "build_crew self problem = Inr c"
  show "\<exists>l1 l2 l3.
         llms self ''analyst'' = Some l1 \<and> llms self ''researcher'' = Some l2 \<and>
         llms self ''synthesizer'' = Some l3 \<and>
         agents c = [analyst l1, researcher self l2, synthesizer l3] \<and>
         tasks c =
           [analysis_task problem (analyst l1),
            research_task (researcher self l2) (analysis_task problem (analyst l1)),
            synthesis_task (synthesizer l3)
              (research_task (researcher self l2) (analysis_task problem (analyst l1)))]"
    using c by (rule built_crew_objects)
  show "memory c = False" using built_crew_settings [OF c] by simp
  show "max_rpm c = 30" using built_crew_settings [OF c] by simp
  show "trace (snd (snd (solve_problem env self problem st))) =
        trace st @ map Agent_init (agents c) @ map Task_init (tasks c) @
          [Crew_init c, Crew_kickoff c [(''problem'', problem)]]"
    by (simp add: solve_problem_state [OF c])
  show "trace (snd (snd (solve_problem env
          (fst (snd (solve_problem env self problem st))) problem
          (snd (snd (solve_problem env self problem st)))))) =
        trace st @
          (map Agent_init (agents c) @ map Task_init (tasks c) @
             [Crew_init c, Crew_kickoff c [(''problem'', problem)]]) @
          (map Agent_init (agents c) @ map Task_init (tasks c) @
             [Crew_init c, Crew_kickoff c [(''problem'', problem)]])"
    by (simp add: solve_problem_self solve_problem_state [OF c])
  show "kickoffs (trace (snd (snd (solve_problem env self problem st)))) =
        kickoffs (trace st) @ [(c, [(''problem'', problem)])]"
    by (simp add: solve_problem_state [OF c] kickoffs_append kickoffs_Agent_init
        kickoffs_Task_init)
  show "kickoffs (trace (snd (snd (solve_problem env
          (fst (snd (solve_problem env self problem st))) problem
          (snd (snd (solve_problem env self problem st))))))) =
        kickoffs (trace st) @ [(c, [(''problem'', problem)]), (c, [(''problem'', problem)])]"
    by (simp add: solve_problem_self solve_problem_state [OF c] kickoffs_append
        kickoffs_Agent_init kickoffs_Task_init)
next
  fix answer e
  let ?st1 = "snd (snd (solve_problem env self problem st))"
  assume a: "fst (solve_problem env self problem st) = Inr answer \<and>
      fst (solve_problem env (fst (snd (solve_problem env self problem st))) problem ?st1) = Inl e"
  then have first: "fst (solve_problem env self problem st) = Inr answer"
    and second: "fst (solve_problem env self problem ?st1) = Inl e"
    by (simp_all add: solve_problem_self)
  obtain c where c: "build_crew self problem = Inr c"
    using first by (cases "build_crew self problem") (simp_all add: solve_problem_not_built)
  have r: "(case fst (env_kickoff env c [(''problem'', problem)] (world ?st1)) of
              Inr result \<Rightarrow> Inr result
            | Inl e \<Rightarrow> if isinstance_Exception e then Inr (''Error: '' @ exn_str e) else Inl e) =
           Inl e"
    using second by (simp add: solve_problem_result [OF c])
  then have k: "fst (env_kickoff env c [(''problem'', problem)] (world ?st1)) = Inl e \<and>
                \<not> isinstance_Exception e"
    by (auto split: sum.splits if_splits)
  from k show "\<not> isinstance_Exception e" by simp
  from k c show "\<exists>c. build_crew self problem = Inr c \<and>
           fst (env_kickoff env c [(''problem'', problem)] (world ?st1)) = Inl e"
    by blast
qed

theorem solve_problem_leaves_no_state_witness:
  "fst (solve_problem
          (fixed_env (Inr (tags_response [])) (Inr (exited 0)) (Inr ''4''))
          initialized ''What is 2+2?'' start) = Inr ''4'' \<and>
   fst (snd (solve_problem
          (fixed_env (Inr (tags_response [])) (Inr (exited 0)) (Inr ''4''))
          initialized ''What is 2+2?'' start)) = initialized \<and>
   length (trace (snd (snd (solve_problem
          (fixed_env (Inr (tags_response [])) (Inr (exited 0)) (Inr ''4''))
          initialized ''What is 2+2?'' start)))) = 8 \<and>
   fst (solve_problem
          (fixed_env (Inr (tags_response [])) (Inr (exited 0)) (Inr ''4''))
          (fst (snd (solve_problem
             (fixed_env (Inr (tags_response [])) (Inr (exited 0)) (Inr ''4''))
             initialized ''What is 2+2?'' start)))
          ''What is 2+2?''
          (snd (snd (solve_problem
             (fixed_env (Inr (tags_response [])) (Inr (exited 0)) (Inr ''4''))
             initialized ''What is 2+2?'' start)))) = Inr ''4'' \<and>
   length (trace (snd (snd (solve_problem
          (fixed_env (Inr (tags_response [])) (Inr (exited 0)) (Inr ''4''))
          (fst (snd (solve_problem
             (fixed_env (Inr (tags_response [])) (Inr (exited 0)) (Inr ''4''))
             initialized ''What is 2+2?'' start)))
          ''What is 2+2?''
          (snd (snd (solve_problem
             (fixed_env (Inr (tags_response [])) (Inr (exited 0)) (Inr ''4''))
             initialized ''What is 2+2?'' start))))))) = 16 \<and>
   length (kickoffs (trace (snd (snd (solve_problem
          (fixed_env (Inr (tags_response [])) (Inr (exited 0)) (Inr ''4''))
          (fst (snd (solve_problem
             (fixed_env (Inr (tags_response [])) (Inr (exited 0)) (Inr ''4''))
             initialized ''What is 2+2?'' start)))
          ''What is 2+2?''
          (snd (snd (solve_problem
             (fixed_env (Inr (tags_response [])) (Inr (exited 0)) (Inr ''4''))
             initialized ''What is 2+2?'' start)))))))) = 2"
proof -
  let ?E = "fixed_env (Inr (tags_response [])) (Inr (exited 0)) (Inr ''4'')"
  let ?after1 = "snd (snd (solve_problem ?E initialized ''What is 2+2?'' start))"
  let ?after2 = "snd (snd (solve_problem ?E
          (fst (snd (solve_problem ?E initialized ''What is 2+2?'' start))) ''What is 2+2?''
          ?after1))"
  obtain c where c: "build_crew initialized ''What is 2+2?'' = Inr c"
    using build_crew_initialized by blast
  have k: "\<And>c i w. fst (env_kickoff ?E c i w) = Inr ''4''"
    by (simp add: fixed_env_def)
  have 1: "fst (solve_problem ?E initialized ''What is 2+2?'' start) = Inr ''4''"
    by (simp add: solve_problem_result [OF c] k)
  have 2: "fst (solve_problem ?E initialized ''What is 2+2?'' ?after1) = Inr ''4''"
    by (simp add: solve_problem_result [OF c] k)
  note T = solve_problem_leaves_no_state
             [where env = ?E and self = initialized and problem = "''What is 2+2?''" and
                st = start and other = ?after1 and m = "ollama_manager initialized" and mc = "[]" and
                ags = Map.empty and kb = Map.empty]
  have s: "fst (snd (solve_problem ?E initialized ''What is 2+2?'' start)) = initialized"
    using T by (rule conjunct1)
  from T c obtain l1 l2 l3 where
    o: "agents c = [analyst l1, researcher initialized l2, synthesizer l3]"
       "tasks c =
          [analysis_task ''What is 2+2?'' (analyst l1),
           research_task (researcher initialized l2) (analysis_task ''What is 2+2?'' (analyst l1)),
           synthesis_task (synthesizer l3)
             (research_task (researcher initialized l2)
                (analysis_task ''What is 2+2?'' (analyst l1)))]"
    by blast
  have t1: "trace ?after1 =
        trace start @ map Agent_init (agents c) @ map Task_init (tasks c) @
          [Crew_init c, Crew_kickoff c [(''problem'', ''What is 2+2?'')]]"
    using T c by blast
  have t2: "trace ?after2 =
        trace start @
          (map Agent_init (agents c) @ map Task_init (tasks c) @
             [Crew_init c, Crew_kickoff c [(''problem'', ''What is 2+2?'')]]) @
          (map Agent_init (agents c) @ map Task_init (tasks c) @
             [Crew_init c, Crew_kickoff c [(''problem'', ''What is 2+2?'')]])"
    using T c by blast
  have k2: "kickoffs (trace ?after2) =
        kickoffs (trace start) @
          [(c, [(''problem'', ''What is 2+2?'')]), (c, [(''problem'', ''What is 2+2?'')])]"
    using T c by blast
  have l1: "length (trace ?after1) = 8" unfolding t1 by (simp add: trace_start o)
  have l2: "length (trace ?after2) = 16" unfolding t2 by (simp add: trace_start o)
  have l3: "length (kickoffs (trace ?after2)) = 2" unfolding k2 by (simp add: trace_start)
  show ?thesis using 1 2 s l1 l2 l3 by simp
qed


text \<open>The sequential process on the crew that \<^verbatim>\<open>solve_problem\<close> builds.\<close>

lemma run_three_stages:
  assumes "t2 = Task d2 e2 a2 [t1]" and "t3 = Task d3 e3 a3 [t2]" and "task_context t1 = []"
  shows "run_sequential interpolate respond inputs [] [t1, t2, t3] =
     (let i1 = (interpolate inputs (task_description t1), interpolate inputs (expected_output t1), []);
          plan = respond (agent t1) i1;
          i2 = (interpolate inputs d2, interpolate inputs e2, [plan]);
          report = respond a2 i2;
          i3 = (interpolate inputs d3, interpolate inputs e3, [report]);
          answer = respond a3 i3
      in Some [(t1, i1, plan), (t2, i2, report), (t3, i3, answer)])"
  using assms by (simp add: Let_def)

lemma run_built_crew:
  assumes "build_crew self problem = Inr c"
  shows "\<exists>t1 t2 t3 i1 plan report answer.
           process c = sequential \<and> tasks c = [t1, t2, t3] \<and>
           task_context t1 = [] \<and> task_context t2 = [t1] \<and> task_context t3 = [t2] \<and>
           task_description t3 = synthesis_task_description \<and>
           expected_output t3 = synthesis_task_expected_output \<and>
           run_crew interpolate respond c inputs =
             Some [(t1, i1, plan),
                   (t2, (interpolate inputs research_task_description,
                         interpolate inputs research_task_expected_output, [plan]), report),
                   (t3, (interpolate inputs synthesis_task_description,
                         interpolate inputs synthesis_task_expected_output, [report]), answer)] \<and>
           snd (snd i1) = []"
proof -
  obtain l1 l2 l3 where
    c: "c = crew [analyst l1, researcher self l2, synthesizer l3]
              [analysis_task problem (analyst l1),
               research_task (researcher self l2) (analysis_task problem (analyst l1)),
               synthesis_task (synthesizer l3)
                 (research_task (researcher self l2) (analysis_task problem (analyst l1)))]"
    using build_crew_Inr [OF assms] by blast
  let ?t1 = "analysis_task problem (analyst l1)"
  let ?t2 = "research_task (researcher self l2) ?t1"
  let ?t3 = "synthesis_task (synthesizer l3) ?t2"
  have 2: "?t2 = Task research_task_description research_task_expected_output
                   (researcher self l2) [?t1]"
    by (simp add: research_task_def)
  have 3: "?t3 = Task synthesis_task_description synthesis_task_expected_output
                   (synthesizer l3) [?t2]"
    by (simp add: synthesis_task_def)
  have 1: "task_context ?t1 = []" by (simp add: analysis_task_def)
  have r: "run_crew interpolate respond c inputs =
             run_sequential interpolate respond inputs [] [?t1, ?t2, ?t3]"
    by (simp add: run_crew_def c crew_def)
  show ?thesis
    unfolding r run_three_stages [OF 2 3 1]
    by (simp add: c crew_def Let_def research_task_def synthesis_task_def analysis_task_def)
qed

lemma synthesis_task_plain_text:
  "CHR ''{'' \<notin> set synthesis_task_description \<and>
   CHR ''{'' \<notin> set synthesis_task_expected_output"
  by (simp add: synthesis_task_description_def synthesis_task_expected_output_def)


lemma built_tasks:
  assumes "build_crew self problem = Inr c"
  shows "\<exists>l1 l2 l3.
           llms self ''analyst'' = Some l1 \<and> llms self ''researcher'' = Some l2 \<and>
           llms self ''synthesizer'' = Some l3 \<and>
           tasks c =
             [analysis_task problem (analyst l1),
              research_task (researcher self l2) (analysis_task problem (analyst l1)),
              synthesis_task (synthesizer l3)
                (research_task (researcher self l2) (analysis_task problem (analyst l1)))]"
  using build_crew_Inr [OF assms] by (auto simp add: crew_def)


text \<open>
  Claim C7. In the crew that \<^verbatim>\<open>solve_problem\<close> builds the process is sequential and
  the tasks are the analysis, the research and the synthesis task, in this order; the
  analysis task declares no context, the research task declares the analysis task and
  the synthesis task declares the research task. Under the sequential process every
  declared dependency has completed when its stage begins: the run is defined, the
  stages run in the order of the list, the research stage receives the plan the
  analysis stage produced and the synthesis stage the report the research stage
  produced.
\<close>

theorem pipeline_is_chained_and_sequential:
  assumes "build_crew self problem = Inr c"
  shows "process c = sequential \<and>
         (\<exists>t1 t2 t3.
            tasks c = [t1, t2, t3] \<and>
            task_context t1 = [] \<and> task_context t2 = [t1] \<and> task_context t3 = [t2] \<and>
            (\<exists>i1 i2 i3 plan report answer.
               run_crew interpolate respond c inputs =
                 Some [(t1, i1, plan), (t2, i2, report), (t3, i3, answer)] \<and>
               snd (snd i1) = [] \<and> snd (snd i2) = [plan] \<and> snd (snd i3) = [report]))"
proof -
  obtain t1 t2 t3 i1 plan report answer where
    "process c = sequential" and "tasks c = [t1, t2, t3]" and
    "task_context t1 = []" and "task_context t2 = [t1]" and "task_context t3 = [t2]" and
    "run_crew interpolate respond c inputs =
       Some [(t1, i1, plan),
             (t2, (interpolate inputs research_task_description,
                   interpolate inputs research_task_expected_output, [plan]), report),
             (t3, (interpolate inputs synthesis_task_description,
                   interpolate inputs synthesis_task_expected_output, [report]), answer)]" and
    "snd (snd i1) = []"
    using run_built_crew [OF assms, of interpolate respond inputs] by blast
  then show ?thesis by auto
qed

theorem pipeline_is_chained_and_sequential_witness:
  "\<exists>c. build_crew initialized ''What is 2+2?'' = Inr c \<and>
       process c = sequential \<and>
       length (tasks c) = 3 \<and>
       (\<exists>run. run_crew (\<lambda>inputs s. s) (\<lambda>a i. ''4'') c [(''problem'', ''What is 2+2?'')] =
                 Some run \<and>
              map (\<lambda>stage. snd (snd (fst (snd stage)))) run = [[], [''4''], [''4'']])"
proof -
  obtain c where c: "build_crew initialized ''What is 2+2?'' = Inr c"
    using build_crew_initialized by blast
  from pipeline_is_chained_and_sequential
         [OF c, of "\<lambda>inputs s. s" "\<lambda>a i. ''4''" "[(''problem'', ''What is 2+2?'')]"]
  obtain t1 t2 t3 i1 i2 i3 plan report answer where
    p: "process c = sequential" and t: "tasks c = [t1, t2, t3]" and
    r: "run_crew (\<lambda>inputs s. s) (\<lambda>a i. ''4'') c [(''problem'', ''What is 2+2?'')] =
          Some [(t1, i1, plan), (t2, i2, report), (t3, i3, answer)]" and
    i: "snd (snd i1) = []" "snd (snd i2) = [plan]" "snd (snd i3) = [report]"
    by blast
  have "run_crew (\<lambda>inputs s. s) (\<lambda>a i. ''4'') c [(''problem'', ''What is 2+2?'')] =
        run_sequential (\<lambda>inputs s. s) (\<lambda>a i. ''4'') [(''problem'', ''What is 2+2?'')] []
          [t1, t2, t3]"
    by (simp add: run_crew_def p t)
  then have "plan = ''4'' \<and> report = ''4''"
    using r by (auto simp add: Let_def split: option.splits)
  then have "map (\<lambda>stage. snd (snd (fst (snd stage))))
               [(t1, i1, plan), (t2, i2, report), (t3, i3, answer)] = [[], [''4''], [''4'']]"
    using i by simp
  then show ?thesis using c p t r by auto
qed

text \<open>
  Claim C5. The synthesis task is built from constants and from the research task
  alone: its description and expected output do not mention the problem, and its
  declared context is the research task and nothing else. In a run of the sequential
  process, whatever the kickoff inputs fill into placeholders, its input is its
  description, its expected output and the report of the research stage. Two runs on
  different problems in which the research stage produced the same report therefore
  give the synthesis stage the same input.
\<close>

theorem synthesis_input_is_the_report_only:
  assumes "build_crew self problem1 = Inr c1"
    and "build_crew self problem2 = Inr c2"
    and "keeps_plain_text interpolate"
    and "run_crew interpolate respond1 c1 [(''problem'', problem1)] = Some run1"
    and "run_crew interpolate respond2 c2 [(''problem'', problem2)] = Some run2"
    and "snd (snd (run1 ! 1)) = snd (snd (run2 ! 1))"
  shows "fst (snd (run1 ! 2)) =
           (synthesis_task_description, synthesis_task_expected_output, [snd (snd (run1 ! 1))]) \<and>
         fst (snd (run1 ! 2)) = fst (snd (run2 ! 2)) \<and>
         task_description (tasks c1 ! 2) = task_description (tasks c2 ! 2) \<and>
         expected_output (tasks c1 ! 2) = expected_output (tasks c2 ! 2) \<and>
         agent (tasks c1 ! 2) = agent (tasks c2 ! 2) \<and>
         task_context (tasks c1 ! 2) = [tasks c1 ! 1] \<and>
         task_context (tasks c2 ! 2) = [tasks c2 ! 1] \<and>
         task_description (tasks c1 ! 1) = task_description (tasks c2 ! 1) \<and>
         expected_output (tasks c1 ! 1) = expected_output (tasks c2 ! 1) \<and>
         agent (tasks c1 ! 1) = agent (tasks c2 ! 1)"
proof -
  obtain l1 l2 l3 where
    l: "llms self ''analyst'' = Some l1" "llms self ''researcher'' = Some l2"
       "llms self ''synthesizer'' = Some l3" and
    ts1: "tasks c1 =
            [analysis_task problem1 (analyst l1),
             research_task (researcher self l2) (analysis_task problem1 (analyst l1)),
             synthesis_task (synthesizer l3)
               (research_task (researcher self l2) (analysis_task problem1 (analyst l1)))]"
    using built_tasks [OF assms(1)] by blast
  have ts2: "tasks c2 =
            [analysis_task problem2 (analyst l1),
             research_task (researcher self l2) (analysis_task problem2 (analyst l1)),
             synthesis_task (synthesizer l3)
               (research_task (researcher self l2) (analysis_task problem2 (analyst l1)))]"
    using built_tasks [OF assms(2)] l by auto
  have declared:
    "task_description (tasks c1 ! 2) = task_description (tasks c2 ! 2) \<and>
     expected_output (tasks c1 ! 2) = expected_output (tasks c2 ! 2) \<and>
     agent (tasks c1 ! 2) = agent (tasks c2 ! 2) \<and>
     task_context (tasks c1 ! 2) = [tasks c1 ! 1] \<and>
     task_context (tasks c2 ! 2) = [tasks c2 ! 1] \<and>
     task_description (tasks c1 ! 1) = task_description (tasks c2 ! 1) \<and>
     expected_output (tasks c1 ! 1) = expected_output (tasks c2 ! 1) \<and>
     agent (tasks c1 ! 1) = agent (tasks c2 ! 1)"
    by (simp add: ts1 ts2 synthesis_task_def research_task_def)
  have plain: "\<And>inputs. interpolate inputs synthesis_task_description = synthesis_task_description"
      "\<And>inputs. interpolate inputs synthesis_task_expected_output =
                 synthesis_task_expected_output"
    using assms(3) synthesis_task_plain_text by (simp_all add: keeps_plain_text_def)
  obtain t1 t2 t3 i1 plan report answer where
    a: "tasks c1 = [t1, t2, t3]" "task_context t3 = [t2]"
       "task_description t3 = synthesis_task_description"
       "expected_output t3 = synthesis_task_expected_output"
       "run_crew interpolate respond1 c1 [(''problem'', problem1)] =
          Some [(t1, i1, plan),
                (t2, (interpolate [(''problem'', problem1)] research_task_description,
                      interpolate [(''problem'', problem1)] research_task_expected_output,
                      [plan]), report),
                (t3, (interpolate [(''problem'', problem1)] synthesis_task_description,
                      interpolate [(''problem'', problem1)] synthesis_task_expected_output,
                      [report]), answer)]"
    using run_built_crew [OF assms(1), of interpolate respond1 "[(''problem'', problem1)]"]
    by blast
  obtain u1 u2 u3 j1 plan' report' answer' where
    b: "tasks c2 = [u1, u2, u3]" "task_context u3 = [u2]"
       "task_description u3 = synthesis_task_description"
       "expected_output u3 = synthesis_task_expected_output"
       "run_crew interpolate respond2 c2 [(''problem'', problem2)] =
          Some [(u1, j1, plan'),
                (u2, (interpolate [(''problem'', problem2)] research_task_description,
                      interpolate [(''problem'', problem2)] research_task_expected_output,
                      [plan']), report'),
                (u3, (interpolate [(''problem'', problem2)] synthesis_task_description,
                      interpolate [(''problem'', problem2)] synthesis_task_expected_output,
                      [report']), answer')]"
    using run_built_crew [OF assms(2), of interpolate respond2 "[(''problem'', problem2)]"]
    by blast
  have r1: "run1 = [(t1, i1, plan),
                (t2, (interpolate [(''problem'', problem1)] research_task_description,
                      interpolate [(''problem'', problem1)] research_task_expected_output,
                      [plan]), report),
                (t3, (synthesis_task_description, synthesis_task_expected_output, [report]),
                 answer)]"
    using a(5) assms(4) by (simp add: plain)
  have r2: "run2 = [(u1, j1, plan'),
                (u2, (interpolate [(''problem'', problem2)] research_task_description,
                      interpolate [(''problem'', problem2)] research_task_expected_output,
                      [plan']), report'),
                (u3, (synthesis_task_description, synthesis_task_expected_output, [report']),
                 answer')]"
    using b(5) assms(5) by (simp add: plain)
  have same: "report = report'" using assms(6) by (simp add: r1 r2)
  have "fst (snd (run1 ! 2)) =
           (synthesis_task_description, synthesis_task_expected_output, [snd (snd (run1 ! 1))]) \<and>
        fst (snd (run1 ! 2)) = fst (snd (run2 ! 2))"
    by (simp add: r1 r2 same)
  then show ?thesis using declared by blast
qed

theorem synthesis_input_is_the_report_only_witness:
  "\<exists>c1 c2 run1 run2.
     build_crew initialized ''What is 2+2?'' = Inr c1 \<and>
     build_crew initialized ''What is 1+3?'' = Inr c2 \<and>
     keeps_plain_text (\<lambda>inputs s. s) \<and>
     run_crew (\<lambda>inputs s. s) (\<lambda>a i. ''4'') c1 [(''problem'', ''What is 2+2?'')] = Some run1 \<and>
     run_crew (\<lambda>inputs s. s) (\<lambda>a i. ''4'') c2 [(''problem'', ''What is 1+3?'')] = Some run2 \<and>
     snd (snd (run1 ! 1)) = snd (snd (run2 ! 1)) \<and>
     fst (snd (run1 ! 2)) = fst (snd (run2 ! 2)) \<and>
     fst (snd (run1 ! 2)) =
       (synthesis_task_description, synthesis_task_expected_output, [''4''])"
proof -
  let ?I = "\<lambda>(inputs :: (string \<times> string) list) (s :: string). s"
  let ?R = "\<lambda>(a :: Agent) (i :: stage_input). ''4''"
  obtain c1 where c1: "build_crew initialized ''What is 2+2?'' = Inr c1"
    using build_crew_initialized by blast
  obtain c2 where c2: "build_crew initialized ''What is 1+3?'' = Inr c2"
    using build_crew_initialized by blast
  have k: "keeps_plain_text ?I" by (simp add: keeps_plain_text_def)
  obtain t1 t2 t3 i1 plan report answer where
    r1: "run_crew ?I ?R c1 [(''problem'', ''What is 2+2?'')] =
          Some [(t1, i1, plan),
                (t2, (research_task_description, research_task_expected_output, [plan]), report),
                (t3, (synthesis_task_description, synthesis_task_expected_output, [report]),
                 answer)]"
    and t1: "process c1 = sequential" "tasks c1 = [t1, t2, t3]"
    using run_built_crew [OF c1, of ?I ?R "[(''problem'', ''What is 2+2?'')]"] by blast
  obtain u1 u2 u3 j1 plan' report' answer' where
    r2: "run_crew ?I ?R c2 [(''problem'', ''What is 1+3?'')] =
          Some [(u1, j1, plan'),
                (u2, (research_task_description, research_task_expected_output, [plan']), report'),
                (u3, (synthesis_task_description, synthesis_task_expected_output, [report']),
                 answer')]"
    and t2: "process c2 = sequential" "tasks c2 = [u1, u2, u3]"
    using run_built_crew [OF c2, of ?I ?R "[(''problem'', ''What is 1+3?'')]"] by blast
  have "run_crew ?I ?R c1 [(''problem'', ''What is 2+2?'')] =
        run_sequential ?I ?R [(''problem'', ''What is 2+2?'')] [] [t1, t2, t3]"
    by (simp add: run_crew_def t1)
  then have e1: "report = ''4''"
    using r1 by (auto simp add: Let_def split: option.splits)
  have "run_crew ?I ?R c2 [(''problem'', ''What is 1+3?'')] =
        run_sequential ?I ?R [(''problem'', ''What is 1+3?'')] [] [u1, u2, u3]"
    by (simp add: run_crew_def t2)
  then have e2: "report' = ''4''"
    using r2 by (auto simp add: Let_def split: option.splits)
  let ?run1 = "[(t1, i1, plan),
                (t2, (research_task_description, research_task_expected_output, [plan]), report),
                (t3, (synthesis_task_description, synthesis_task_expected_output, [report]),
                 answer)]"
  let ?run2 = "[(u1, j1, plan'),
                (u2, (research_task_description, research_task_expected_output, [plan']), report'),
                (u3, (synthesis_task_description, synthesis_task_expected_output, [report']),
                 answer')]"
  have same: "snd (snd (?run1 ! 1)) = snd (snd (?run2 ! 1))"
    by (simp add: e1 e2)
  note T = synthesis_input_is_the_report_only [OF c1 c2 k r1 r2 same]
  have f1: "fst (snd (?run1 ! 2)) = fst (snd (?run2 ! 2))"
    using T by (elim conjE)
  have f2: "fst (snd (?run1 ! 2)) =
              (synthesis_task_description, synthesis_task_expected_output, [''4''])"
    using T e1 by simp
  have "build_crew initialized ''What is 2+2?'' = Inr c1 \<and>
     build_crew initialized ''What is 1+3?'' = Inr c2 \<and>
     keeps_plain_text ?I \<and>
     run_crew ?I ?R c1 [(''problem'', ''What is 2+2?'')] = Some ?run1 \<and>
     run_crew ?I ?R c2 [(''problem'', ''What is 1+3?'')] = Some ?run2 \<and>
     snd (snd (?run1 ! 1)) = snd (snd (?run2 ! 1)) \<and>
     fst (snd (?run1 ! 2)) = fst (snd (?run2 ! 2)) \<and>
     fst (snd (?run1 ! 2)) =
       (synthesis_task_description, synthesis_task_expected_output, [''4''])"
    using c1 c2 k r1 r2 same f1 f2 by (intro conjI)
  then show ?thesis by blast
qed


end
